theory Spec2Isabelle
  imports Main
begin

section \<open>Data model\<close>

text \<open>
  The persistent store is a record of tables. A table is the list of its rows in
  insertion order; the inventory table, whose key is the pair (store id, sku), is
  a map from that key to its row. Timestamps (the ISO strings of \<open>now()\<close> and
  \<open>Date.toISOString()\<close>, compared as strings by the code) are milliseconds on
  the integer line. The current time and the fresh identifiers of \<open>uuid()\<close> are
  arguments of every handler, one current time for all the \<open>now()\<close> calls of
  one invocation; row identifiers that nothing reads (cart items, order items,
  logs, usage rows, events) are left out of the rows. A handler returns its
  answer, the thrown error on the left, together with the store it leaves.
\<close>

type_synonym timestamp = int

datatype api_error =
    InvalidRequest string
  | NotFound string
  | Conflict string
  | InsufficientInventory string
  | Ineligible string
  | WebhookSignatureInvalid string
  | StripeError string

record inventory_row =
  on_hand :: int
  reserved :: int
  updated_at :: timestamp

record inventory_log =
  il_store_id :: string
  il_sku :: string
  il_delta :: int
  il_reason :: string

datatype cart_status = Open | CheckedOut | Expired

record cart =
  c_id :: string
  c_store_id :: string
  c_customer_email :: string
  c_status :: cart_status
  c_expires_at :: timestamp
  c_discount_code :: "string option"
  c_discount_id :: "string option"
  c_discount_amount_cents :: "int option"
  c_stripe_checkout_session_id :: "string option"
  c_currency :: string

record cart_item =
  ci_cart_id :: string
  ci_sku :: string
  ci_title :: string
  ci_qty :: int
  ci_unit_price_cents :: int

datatype discount_type = Percentage | FixedAmount

record discount =
  d_id :: string
  d_store_id :: string
  d_code :: string
  d_type :: discount_type
  d_value :: int
  d_status :: string
  d_min_purchase_cents :: int
  d_max_discount_cents :: "int option"
  d_starts_at :: "timestamp option"
  d_expires_at :: "timestamp option"
  d_usage_limit :: "int option"
  d_usage_limit_per_customer :: "int option"
  d_usage_count :: int
  d_updated_at :: timestamp

record discount_usage_row =
  du_discount_id :: string
  du_order_id :: string
  du_customer_email :: string
  du_discount_amount_cents :: int

record order =
  o_id :: string
  o_store_id :: string
  o_number :: string
  o_status :: string
  o_customer_email :: string
  o_ship_to :: "string option"
  o_subtotal_cents :: int
  o_tax_cents :: int
  o_shipping_cents :: int
  o_total_cents :: int
  o_currency :: "string option"
  o_discount_code :: "string option"
  o_discount_id :: "string option"
  o_discount_amount_cents :: int
  o_stripe_checkout_session_id :: "string option"
  o_stripe_payment_intent_id :: "string option"

record order_item =
  oi_order_id :: string
  oi_sku :: string
  oi_title :: string
  oi_qty :: int
  oi_unit_price_cents :: int

record event_row =
  e_store_id :: string
  e_stripe_event_id :: string
  e_type :: string
  e_payload :: string

record variant =
  v_store_id :: string
  v_sku :: string
  v_title :: string
  v_price_cents :: int
  v_status :: string

record store =
  st_id :: string
  st_stripe_secret_key :: "string option"
  st_stripe_webhook_secret :: "string option"

record db =
  inventory :: "(string \<times> string) \<rightharpoonup> inventory_row"
  inventory_logs :: "inventory_log list"
  carts :: "cart list"
  cart_items :: "cart_item list"
  discounts :: "discount list"
  discount_usage :: "discount_usage_row list"
  orders :: "order list"
  order_items :: "order_item list"
  events :: "event_row list"
  variants :: "variant list"
  stores :: "store list"

text \<open>JavaScript truthiness of a nullable string: null and the empty string are falsy.\<close>

definition truthy :: "string option \<Rightarrow> bool" where
  "truthy s = (case s of None \<Rightarrow> False | Some v \<Rightarrow> v \<noteq> [])"

section \<open>Queries and statements shared by the handlers\<close>

text \<open>\<open>SELECT * FROM carts WHERE id = ? AND store_id = ?\<close>, first row.\<close>

definition find_cart :: "db \<Rightarrow> string \<Rightarrow> string \<Rightarrow> cart option" where
  "find_cart d cartId storeId =
     find (\<lambda>c. c_id c = cartId \<and> c_store_id c = storeId) (carts d)"

text \<open>\<open>SELECT * FROM cart_items WHERE cart_id = ?\<close>.\<close>

definition select_cart_items :: "db \<Rightarrow> string \<Rightarrow> cart_item list" where
  "select_cart_items d cartId = filter (\<lambda>i. ci_cart_id i = cartId) (cart_items d)"

text \<open>\<open>items.reduce((sum, item) => sum + item.unit_price_cents * item.qty, 0)\<close>.\<close>

definition subtotal_of :: "cart_item list \<Rightarrow> int" where
  "subtotal_of items = foldl (\<lambda>sum item. sum + ci_unit_price_cents item * ci_qty item) 0 items"

text \<open>\<open>SELECT * FROM discounts WHERE id = ? AND store_id = ?\<close>, first row.\<close>

definition find_discount :: "db \<Rightarrow> string \<Rightarrow> string \<Rightarrow> discount option" where
  "find_discount d discountId storeId =
     find (\<lambda>x. d_id x = discountId \<and> d_store_id x = storeId) (discounts d)"

text \<open>An \<open>UPDATE carts SET ... WHERE id = ?\<close> with the assignment \<open>f\<close>.\<close>

definition update_cart :: "string \<Rightarrow> (cart \<Rightarrow> cart) \<Rightarrow> db \<Rightarrow> db" where
  "update_cart cartId f d =
     d\<lparr>carts := map (\<lambda>c. if c_id c = cartId then f c else c) (carts d)\<rparr>"

text \<open>\<open>SET discount_code = NULL, discount_id = NULL, discount_amount_cents = 0\<close>.\<close>

definition clear_discount :: "cart \<Rightarrow> cart" where
  "clear_discount c =
     c\<lparr>c_discount_code := None, c_discount_id := None, c_discount_amount_cents := Some 0\<rparr>"

section \<open>Inventory ledger statements\<close>

text \<open>
  The reservation of checkout.ts:
  \<open>UPDATE inventory SET reserved = reserved + ?, updated_at = ?
    WHERE store_id = ? AND sku = ? AND on_hand - reserved >= ?\<close>.
  The first component is \<open>result.changes\<close>, the number of rows updated.
\<close>

definition reserve :: "timestamp \<Rightarrow> string \<Rightarrow> string \<Rightarrow> int \<Rightarrow> db \<Rightarrow> nat \<times> db" where
  "reserve t storeId sku qty d =
     (case inventory d (storeId, sku) of
        None \<Rightarrow> (0, d)
      | Some r \<Rightarrow>
          if on_hand r - reserved r \<ge> qty
          then (1, d\<lparr>inventory := (inventory d)((storeId, sku) \<mapsto>
                       r\<lparr>reserved := reserved r + qty, updated_at := t\<rparr>)\<rparr>)
          else (0, d))"

text \<open>
  The release of checkout.ts and of the cron handler:
  \<open>UPDATE inventory SET reserved = MAX(reserved - ?, 0), updated_at = ?
    WHERE store_id = ? AND sku = ?\<close>.
\<close>

definition release :: "timestamp \<Rightarrow> string \<Rightarrow> string \<Rightarrow> int \<Rightarrow> db \<Rightarrow> db" where
  "release t storeId sku qty d =
     (case inventory d (storeId, sku) of
        None \<Rightarrow> d
      | Some r \<Rightarrow>
          d\<lparr>inventory := (inventory d)((storeId, sku) \<mapsto>
               r\<lparr>reserved := max (reserved r - qty) 0, updated_at := t\<rparr>)\<rparr>)"

text \<open>
  The sale of webhooks.ts:
  \<open>UPDATE inventory SET reserved = reserved - ?, on_hand = on_hand - ?, updated_at = ?
    WHERE store_id = ? AND sku = ?\<close>.
\<close>

definition sell :: "timestamp \<Rightarrow> string \<Rightarrow> string \<Rightarrow> int \<Rightarrow> db \<Rightarrow> db" where
  "sell t storeId sku qty d =
     (case inventory d (storeId, sku) of
        None \<Rightarrow> d
      | Some r \<Rightarrow>
          d\<lparr>inventory := (inventory d)((storeId, sku) \<mapsto>
               r\<lparr>reserved := reserved r - qty, on_hand := on_hand r - qty, updated_at := t\<rparr>)\<rparr>)"

text \<open>\<open>INSERT INTO inventory_logs (id, store_id, sku, delta, reason) VALUES (...)\<close>.\<close>

definition insert_inventory_log :: "string \<Rightarrow> string \<Rightarrow> int \<Rightarrow> string \<Rightarrow> db \<Rightarrow> db" where
  "insert_inventory_log storeId sku delta reason d =
     d\<lparr>inventory_logs := inventory_logs d @
          [\<lparr>il_store_id = storeId, il_sku = sku, il_delta = delta, il_reason = reason\<rparr>]\<rparr>"

section \<open>Discount engine\<close>

text \<open>
  Modelled from the spec: \<open>calculateDiscount\<close> of src/routes/discounts.ts, which is
  not among the sources (only its test file is). Spec 4.2: percentage is
  \<open>floor(subtotal * value / 100)\<close>, then capped by \<open>max_discount_cents\<close> if set;
  fixed amount is \<open>min(value, subtotal)\<close>.
\<close>

definition calculateDiscount :: "discount \<Rightarrow> int \<Rightarrow> int" where
  "calculateDiscount disc subtotalCents =
     (case d_type disc of
        Percentage \<Rightarrow>
          (let amount = (subtotalCents * d_value disc) div 100
           in case d_max_discount_cents disc of
                None \<Rightarrow> amount
              | Some cap \<Rightarrow> min amount cap)
      | FixedAmount \<Rightarrow> min (d_value disc) subtotalCents)"

text \<open>
  \<open>String.prototype.toLowerCase\<close> and \<open>toUpperCase\<close> on the ASCII letters; every
  other character is kept.
\<close>

definition lower_char :: "char \<Rightarrow> char" where
  "lower_char c =
     (case map_of (zip ''ABCDEFGHIJKLMNOPQRSTUVWXYZ'' ''abcdefghijklmnopqrstuvwxyz'') c of
        None \<Rightarrow> c
      | Some l \<Rightarrow> l)"

definition toLowerCase :: "string \<Rightarrow> string" where
  "toLowerCase s = map lower_char s"

definition upper_char :: "char \<Rightarrow> char" where
  "upper_char c =
     (case map_of (zip ''abcdefghijklmnopqrstuvwxyz'' ''ABCDEFGHIJKLMNOPQRSTUVWXYZ'') c of
        None \<Rightarrow> c
      | Some u \<Rightarrow> u)"

definition toUpperCase :: "string \<Rightarrow> string" where
  "toUpperCase s = map upper_char s"

text \<open>\<open>String.prototype.trim\<close>: white space is dropped at both ends.\<close>

definition is_space :: "char \<Rightarrow> bool" where
  "is_space c = (c \<in> set [CHR '' '', CHR 0x09, CHR 0x0A, CHR 0x0B, CHR 0x0C, CHR 0x0D])"

definition trim :: "string \<Rightarrow> string" where
  "trim s = rev (dropWhile is_space (rev (dropWhile is_space s)))"

text \<open>
  Modelled from the spec: \<open>validateDiscount\<close> of src/routes/discounts.ts, which is
  not among the sources. Spec 4.2: status is active, the current time is within
  \<open>[starts_at, expires_at]\<close> when set, the subtotal reaches \<open>min_purchase_cents\<close>,
  \<open>usage_count < usage_limit\<close> when set, and the customer's usage rows (by
  lower-cased email) number less than \<open>usage_limit_per_customer\<close> when set. A
  violation is the thrown error.
\<close>

definition customer_usage_count :: "db \<Rightarrow> discount \<Rightarrow> string \<Rightarrow> int" where
  "customer_usage_count d disc email =
     int (length (filter (\<lambda>u. du_discount_id u = d_id disc \<and>
                               du_customer_email u = toLowerCase email) (discount_usage d)))"

definition validateDiscount ::
  "db \<Rightarrow> timestamp \<Rightarrow> discount \<Rightarrow> int \<Rightarrow> string \<Rightarrow> api_error + unit" where
  "validateDiscount d t disc subtotalCents email =
     (if d_status disc \<noteq> ''active'' then Inl (Ineligible ''not active'')
      else if (case d_starts_at disc of None \<Rightarrow> False | Some s \<Rightarrow> t < s)
        then Inl (Ineligible ''not started'')
      else if (case d_expires_at disc of None \<Rightarrow> False | Some x \<Rightarrow> x < t)
        then Inl (Ineligible ''expired'')
      else if subtotalCents < d_min_purchase_cents disc
        then Inl (Ineligible ''minimum purchase not met'')
      else if (case d_usage_limit disc of None \<Rightarrow> False | Some l \<Rightarrow> \<not> d_usage_count disc < l)
        then Inl (Ineligible ''usage limit reached'')
      else if (case d_usage_limit_per_customer disc of
                 None \<Rightarrow> False
               | Some l \<Rightarrow> \<not> customer_usage_count d disc email < l)
        then Inl (Ineligible ''customer usage limit reached'')
      else Inr ())"

section \<open>Checkout: POST /v1/carts/:cartId/checkout\<close>

text \<open>
  The payment processor is an argument: coupon creation and session creation
  return None where the client library throws. The shipping options of the
  request body are passed through to the processor and are not modelled.
\<close>

record line_item =
  li_name :: string
  li_unit_amount :: int
  li_quantity :: int

record session_params =
  sp_customer_email :: string
  sp_line_items :: "line_item list"
  sp_coupon :: "string option"
  sp_success_url :: string
  sp_cancel_url :: string
  sp_cart_id :: string
  sp_store_id :: string
  sp_discount :: "(string \<times> string \<times> discount_type) option"

record stripe_session =
  ss_id :: string
  ss_url :: "string option"

record stripe_api =
  coupons_create :: "int \<Rightarrow> string \<Rightarrow> string option"
  sessions_create :: "session_params \<Rightarrow> stripe_session option"

record checkout_body =
  success_url :: "string option"
  cancel_url :: "string option"

record checkout_response =
  checkout_url :: "string option"
  stripe_checkout_session_id :: string

text \<open>
  Lines 213-240: revalidation of the attached discount. The result is
  \<open>discountAmountCents\<close>, \<open>discount\<close> and the store after the statements run.
\<close>

definition checkout_discount ::
  "timestamp \<Rightarrow> store \<Rightarrow> string \<Rightarrow> cart \<Rightarrow> int \<Rightarrow> db \<Rightarrow> int \<times> discount option \<times> db" where
  "checkout_discount t st cartId crt subtotalCents d =
     (case c_discount_id crt of
        None \<Rightarrow> (0, None, d)
      | Some discountId \<Rightarrow>
          if discountId = [] then (0, None, d)
          else (case find_discount d discountId (st_id st) of
                  Some discountRow \<Rightarrow>
                    (case validateDiscount d t discountRow subtotalCents (c_customer_email crt) of
                       Inr _ \<Rightarrow> (calculateDiscount discountRow subtotalCents, Some discountRow, d)
                     | Inl _ \<Rightarrow> (0, None, update_cart cartId clear_discount d))
                | None \<Rightarrow> (0, None, update_cart cartId clear_discount d)))"

text \<open>Lines 245-252: the closure \<open>releaseReservedInventory\<close> over \<open>reservedItems\<close>.\<close>

fun releaseReservedInventory :: "timestamp \<Rightarrow> string \<Rightarrow> (string \<times> int) list \<Rightarrow> db \<Rightarrow> db" where
  "releaseReservedInventory t storeId [] d = d"
| "releaseReservedInventory t storeId ((sku, qty) # rest) d =
     releaseReservedInventory t storeId rest (release t storeId sku qty d)"

text \<open>
  Lines 254-271: the reservation loop. A reservation that updates no row releases
  what \<open>reservedItems\<close> holds and throws.
\<close>

fun reserve_loop ::
  "timestamp \<Rightarrow> string \<Rightarrow> cart_item list \<Rightarrow> (string \<times> int) list \<Rightarrow> db
     \<Rightarrow> (api_error + (string \<times> int) list) \<times> db" where
  "reserve_loop t storeId [] reservedItems d = (Inr reservedItems, d)"
| "reserve_loop t storeId (item # items) reservedItems d =
     (case reserve t storeId (ci_sku item) (ci_qty item) d of
        (changes, d') \<Rightarrow>
          if changes = 0
          then (Inl (InsufficientInventory (ci_sku item)),
                releaseReservedInventory t storeId reservedItems d')
          else reserve_loop t storeId items (reservedItems @ [(ci_sku item, ci_qty item)]) d')"

definition session_params_of ::
  "store \<Rightarrow> string \<Rightarrow> cart \<Rightarrow> cart_item list \<Rightarrow> discount option \<Rightarrow> string option
     \<Rightarrow> string \<Rightarrow> string \<Rightarrow> session_params" where
  "session_params_of st cartId crt items disc stripeCouponId successUrl cancelUrl =
     \<lparr>sp_customer_email = c_customer_email crt,
      sp_line_items = map (\<lambda>item. \<lparr>li_name = ci_title item,
                                    li_unit_amount = ci_unit_price_cents item,
                                    li_quantity = ci_qty item\<rparr>) items,
      sp_coupon = (if truthy stripeCouponId then stripeCouponId else None),
      sp_success_url = successUrl,
      sp_cancel_url = cancelUrl,
      sp_cart_id = cartId,
      sp_store_id = st_id st,
      sp_discount = map_option (\<lambda>x. (d_id x, d_code x, d_type x)) disc\<rparr>"

text \<open>Lines 278-365: coupon, session, and the transition to \<open>checked_out\<close>.\<close>

definition checkout_payment ::
  "stripe_api \<Rightarrow> timestamp \<Rightarrow> store \<Rightarrow> string \<Rightarrow> cart \<Rightarrow> cart_item list \<Rightarrow> int
     \<Rightarrow> discount option \<Rightarrow> string \<Rightarrow> string \<Rightarrow> (string \<times> int) list \<Rightarrow> db
     \<Rightarrow> (api_error + checkout_response) \<times> db" where
  "checkout_payment api t st cartId crt items discountAmountCents disc successUrl cancelUrl
       reservedItems d =
     (let coupon =
            (case disc of
               None \<Rightarrow> Inr None
             | Some x \<Rightarrow>
                 if discountAmountCents > 0
                 then (case coupons_create api discountAmountCents
                              (if d_code x = [] then ''Discount'' else d_code x) of
                         None \<Rightarrow> Inl ()
                       | Some couponId \<Rightarrow> Inr (Some couponId))
                 else Inr None)
      in case coupon of
           Inl _ \<Rightarrow>
             (Inl (InvalidRequest ''Failed to apply discount. Please try again.''),
              releaseReservedInventory t (st_id st) reservedItems d)
         | Inr stripeCouponId \<Rightarrow>
             (case sessions_create api
                     (session_params_of st cartId crt items disc stripeCouponId
                        successUrl cancelUrl) of
                None \<Rightarrow>
                  (Inl (InvalidRequest ''Payment processing error. Please try again.''),
                   releaseReservedInventory t (st_id st) reservedItems d)
              | Some session \<Rightarrow>
                  (Inr \<lparr>checkout_url = ss_url session,
                        stripe_checkout_session_id = ss_id session\<rparr>,
                   update_cart cartId
                     (\<lambda>c. c\<lparr>c_status := CheckedOut,
                            c_stripe_checkout_session_id := Some (ss_id session),
                            c_discount_amount_cents := Some discountAmountCents\<rparr>) d)))"

definition checkout ::
  "stripe_api \<Rightarrow> timestamp \<Rightarrow> store \<Rightarrow> string \<Rightarrow> checkout_body \<Rightarrow> db
     \<Rightarrow> (api_error + checkout_response) \<times> db" where
  "checkout api t st cartId body d =
     (case (if truthy (success_url body) then success_url body else None) of
        None \<Rightarrow> (Inl (InvalidRequest ''success_url is required''), d)
      | Some successUrl \<Rightarrow>
     (case (if truthy (cancel_url body) then cancel_url body else None) of
        None \<Rightarrow> (Inl (InvalidRequest ''cancel_url is required''), d)
      | Some cancelUrl \<Rightarrow>
      if \<not> truthy (st_stripe_secret_key st)
        then (Inl (InvalidRequest ''Stripe not connected. POST /v1/setup/stripe first.''), d)
      else (case find_cart d cartId (st_id st) of
              None \<Rightarrow> (Inl (NotFound ''Cart not found''), d)
            | Some crt \<Rightarrow>
                if c_status crt \<noteq> Open then (Inl (Conflict ''Cart is not open''), d)
                else (let items = select_cart_items d cartId in
                      if items = [] then (Inl (InvalidRequest ''Cart is empty''), d)
                      else (case checkout_discount t st cartId crt (subtotal_of items) d of
                              (discountAmountCents, disc, d1) \<Rightarrow>
                                (case reserve_loop t (st_id st) items [] d1 of
                                   (Inl e, d2) \<Rightarrow> (Inl e, d2)
                                 | (Inr reservedItems, d2) \<Rightarrow>
                                     checkout_payment api t st cartId crt items
                                       discountAmountCents disc successUrl cancelUrl
                                       reservedItems d2))))))"

section \<open>Cart creation: POST /v1/carts\<close>

text \<open>
  The handler inserts (id, store_id, customer_email, expires_at) with
  \<open>expires_at = Date.now() + 30 * 60 * 1000\<close>. Modelled from the spec: the column
  defaults of the carts table, which is not among the sources (status open, as
  the response says; currency USD; the nullable discount and session fields
  null).
\<close>

definition create_cart ::
  "timestamp \<Rightarrow> string \<Rightarrow> store \<Rightarrow> string option \<Rightarrow> db \<Rightarrow> (api_error + cart) \<times> db" where
  "create_cart t newId st customerEmail d =
     (case customerEmail of
        None \<Rightarrow> (Inl (InvalidRequest ''customer_email is required''), d)
      | Some email \<Rightarrow>
          if email = [] \<or> CHR ''@'' \<notin> set email
          then (Inl (InvalidRequest ''customer_email is required''), d)
          else (let row = \<lparr>c_id = newId, c_store_id = st_id st, c_customer_email = email,
                            c_status = Open, c_expires_at = t + 30 * 60 * 1000,
                            c_discount_code = None, c_discount_id = None,
                            c_discount_amount_cents = None,
                            c_stripe_checkout_session_id = None, c_currency = ''USD''\<rparr>
                in (Inr row, d\<lparr>carts := carts d @ [row]\<rparr>)))"

section \<open>Expiry sweep: handleCron\<close>

text \<open>
  The inner loop of the handler: for each item of the cart the release statement,
  then the insertion of a log row with delta \<open>-item.qty\<close> and reason release.
\<close>

fun release_items :: "timestamp \<Rightarrow> string \<Rightarrow> cart_item list \<Rightarrow> db \<Rightarrow> db" where
  "release_items t storeId [] d = d"
| "release_items t storeId (item # items) d =
     release_items t storeId items
       (insert_inventory_log storeId (ci_sku item) (- ci_qty item) ''release''
          (release t storeId (ci_sku item) (ci_qty item) d))"

text \<open>
  The outer loop over the selected carts: read the cart's items, release them,
  then \<open>UPDATE carts SET status = 'expired' WHERE id = ?\<close>.
\<close>

fun sweep_carts :: "timestamp \<Rightarrow> cart list \<Rightarrow> db \<Rightarrow> db" where
  "sweep_carts t [] d = d"
| "sweep_carts t (crt # rest) d =
     sweep_carts t rest
       (update_cart (c_id crt) (\<lambda>c. c\<lparr>c_status := Expired\<rparr>)
          (release_items t (c_store_id crt) (select_cart_items d (c_id crt)) d))"

text \<open>\<open>SELECT * FROM carts WHERE status = 'open' AND expires_at < ?\<close>.\<close>

definition expired_carts :: "timestamp \<Rightarrow> db \<Rightarrow> cart list" where
  "expired_carts currentTime d =
     filter (\<lambda>c. c_status c = Open \<and> c_expires_at c < currentTime) (carts d)"

text \<open>
  The handler; the retry of failed outbound deliveries that follows the sweep
  belongs to a module outside the sources and is not modelled.
\<close>

definition handleCron :: "timestamp \<Rightarrow> db \<Rightarrow> db" where
  "handleCron currentTime d = sweep_carts currentTime (expired_carts currentTime d) d"

section \<open>Order materialization: POST /v1/webhooks/stripe\<close>

text \<open>
  The verified event as the handler reads it: the session is \<open>event.data.object\<close>,
  the optional fields are the ones read with \<open>?.\<close> and \<open>??\<close>, the payload is
  \<open>JSON.stringify(event.data.object)\<close> and the address is already stringified.
\<close>

record stripe_event =
  ev_id :: string
  ev_type :: string
  ev_session_id :: string
  ev_cart_id :: "string option"
  ev_discount_id :: "string option"
  ev_amount_shipping :: "int option"
  ev_amount_tax :: "int option"
  ev_amount_total :: "int option"
  ev_shipping_address :: "string option"
  ev_payment_intent :: "string option"
  ev_payload :: string

record webhook_request =
  wr_signature :: "string option"
  wr_body :: string

text \<open>
  The two library calls of the preamble. \<open>parse_store_id\<close> is \<open>JSON.parse\<close>
  followed by the read of \<open>data.object.metadata.store_id\<close>: None where the parse
  throws. \<open>constructEvent\<close> is the signature verification on (body, signature,
  secret): the message of the thrown error, or the event.
\<close>

record webhook_env =
  parse_store_id :: "string \<Rightarrow> string option option"
  constructEvent :: "string \<Rightarrow> string \<Rightarrow> string \<Rightarrow> string + stripe_event"

text \<open>
  \<open>UPDATE discounts SET usage_count = usage_count + 1, updated_at = ?
    WHERE id = ? AND (usage_limit IS NULL OR usage_count < usage_limit)\<close>.
\<close>

definition increment_usage :: "timestamp \<Rightarrow> string \<Rightarrow> db \<Rightarrow> db" where
  "increment_usage t discountId d =
     d\<lparr>discounts :=
         map (\<lambda>x. if d_id x = discountId \<and>
                      (case d_usage_limit x of None \<Rightarrow> True | Some l \<Rightarrow> d_usage_count x < l)
                   then x\<lparr>d_usage_count := d_usage_count x + 1, d_updated_at := t\<rparr>
                   else x) (discounts d)\<rparr>"

text \<open>Lines 83-86: \<open>isValid\<close>.\<close>

definition discount_is_valid :: "timestamp \<Rightarrow> discount \<Rightarrow> bool" where
  "discount_is_valid currentTime disc =
     (d_status disc = ''active'' \<and>
      (case d_starts_at disc of None \<Rightarrow> True | Some s \<Rightarrow> currentTime \<ge> s) \<and>
      (case d_expires_at disc of None \<Rightarrow> True | Some x \<Rightarrow> currentTime \<le> x))"

text \<open>
  Lines 61-104. The result is (discountCode, discountId, discountAmountCents,
  shouldTrackUsage) and the store after the conditional increment.
\<close>

definition webhook_discount ::
  "timestamp \<Rightarrow> store \<Rightarrow> stripe_event \<Rightarrow> cart \<Rightarrow> db
     \<Rightarrow> (string option \<times> string option \<times> int \<times> bool) \<times> db" where
  "webhook_discount t st event crt d =
     (case ev_discount_id event of
        None \<Rightarrow> ((None, None, 0, False), d)
      | Some metaId \<Rightarrow>
          if metaId = [] then ((None, None, 0, False), d)
          else (case find_discount d metaId (st_id st) of
                  None \<Rightarrow> ((None, None, 0, False), d)
                | Some disc \<Rightarrow>
                    (let discountAmountCents =
                           (case c_discount_amount_cents crt of None \<Rightarrow> 0 | Some a \<Rightarrow> a);
                         shouldTrackUsage = (discount_is_valid t disc \<and> discountAmountCents > 0)
                     in ((Some (d_code disc), Some (d_id disc), discountAmountCents,
                          shouldTrackUsage),
                         if shouldTrackUsage then increment_usage t (d_id disc) d else d))))"

text \<open>\<open>String(n).padStart(4, '0')\<close> on a natural number.\<close>

fun decimal :: "nat \<Rightarrow> string" where
  "decimal n =
     (if n < 10 then [''0123456789'' ! n]
      else decimal (n div 10) @ [''0123456789'' ! (n mod 10)])"

definition padStart4 :: "string \<Rightarrow> string" where
  "padStart4 s = replicate (4 - length s) (CHR ''0'') @ s"

definition order_number :: "nat \<Rightarrow> string" where
  "order_number count = ''ORD-'' @ padStart4 (decimal (count + 1))"

text \<open>Lines 146-161: per item an order item, the sale statement and a sale log row.\<close>

fun sell_items :: "timestamp \<Rightarrow> string \<Rightarrow> string \<Rightarrow> cart_item list \<Rightarrow> db \<Rightarrow> db" where
  "sell_items t storeId orderId [] d = d"
| "sell_items t storeId orderId (item # items) d =
     sell_items t storeId orderId items
       (insert_inventory_log storeId (ci_sku item) (- ci_qty item) ''sale''
          (sell t storeId (ci_sku item) (ci_qty item)
             (d\<lparr>order_items := order_items d @
                   [\<lparr>oi_order_id = orderId, oi_sku = ci_sku item, oi_title = ci_title item,
                     oi_qty = ci_qty item, oi_unit_price_cents = ci_unit_price_cents item\<rparr>]\<rparr>)))"

text \<open>
  Lines 59-161 for a cart that was found. The dispatch of \<open>order.created\<close> to the
  store's subscribers (lines 163-190) belongs to a module outside the sources
  and is not modelled.
\<close>

definition materialize_order ::
  "timestamp \<Rightarrow> string \<Rightarrow> store \<Rightarrow> stripe_event \<Rightarrow> string \<Rightarrow> cart \<Rightarrow> db \<Rightarrow> db" where
  "materialize_order t orderId st event cartId crt d =
     (let items = select_cart_items d cartId in
      case webhook_discount t st event crt d of
        ((discountCode, discountId, discountAmountCents, shouldTrackUsage), d1) \<Rightarrow>
          (let subtotalCents = subtotal_of items;
               count = length (filter (\<lambda>x. o_store_id x = st_id st) (orders d1));
               row = \<lparr>o_id = orderId, o_store_id = st_id st, o_number = order_number count,
                      o_status = ''paid'', o_customer_email = c_customer_email crt,
                      o_ship_to = ev_shipping_address event,
                      o_subtotal_cents = subtotalCents,
                      o_tax_cents = (case ev_amount_tax event of None \<Rightarrow> 0 | Some a \<Rightarrow> a),
                      o_shipping_cents =
                        (case ev_amount_shipping event of None \<Rightarrow> 0 | Some a \<Rightarrow> a),
                      o_total_cents = (case ev_amount_total event of None \<Rightarrow> 0 | Some a \<Rightarrow> a),
                      o_currency = Some (c_currency crt),
                      o_discount_code = discountCode, o_discount_id = discountId,
                      o_discount_amount_cents = discountAmountCents,
                      o_stripe_checkout_session_id = Some (ev_session_id event),
                      o_stripe_payment_intent_id = ev_payment_intent event\<rparr>;
               d2 = d1\<lparr>orders := orders d1 @ [row]\<rparr>;
               d3 = (if shouldTrackUsage \<and> truthy discountId
                     then d2\<lparr>discount_usage := discount_usage d2 @
                              [\<lparr>du_discount_id = (case discountId of Some i \<Rightarrow> i | None \<Rightarrow> []),
                                du_order_id = orderId,
                                du_customer_email = toLowerCase (c_customer_email crt),
                                du_discount_amount_cents = discountAmountCents\<rparr>]\<rparr>
                     else d2)
           in sell_items t (st_id st) orderId items d3))"

text \<open>Lines 51-193: the branch on the event type and on the cart of the metadata.\<close>

definition process_event :: "timestamp \<Rightarrow> string \<Rightarrow> store \<Rightarrow> stripe_event \<Rightarrow> db \<Rightarrow> db" where
  "process_event t orderId st event d =
     (if ev_type event = ''checkout.session.completed''
      then (case ev_cart_id event of
              None \<Rightarrow> d
            | Some cartId \<Rightarrow>
                if cartId = [] then d
                else (case find (\<lambda>c. c_id c = cartId) (carts d) of
                        None \<Rightarrow> d
                      | Some crt \<Rightarrow> materialize_order t orderId st event cartId crt d))
      else d)"

text \<open>Lines 195-199: the event row.\<close>

definition insert_event :: "store \<Rightarrow> stripe_event \<Rightarrow> db \<Rightarrow> db" where
  "insert_event st event d =
     d\<lparr>events := events d @
          [\<lparr>e_store_id = st_id st, e_stripe_event_id = ev_id event, e_type = ev_type event,
            e_payload = ev_payload event\<rparr>]\<rparr>"

text \<open>\<open>SELECT id FROM events WHERE stripe_event_id = ?\<close> has a row.\<close>

definition event_exists :: "db \<Rightarrow> string \<Rightarrow> bool" where
  "event_exists d eventId = (find (\<lambda>e. e_stripe_event_id e = eventId) (events d) \<noteq> None)"

text \<open>
  Lines 15-45, the preamble: the signature header, the store named by the
  metadata of the parsed body, its webhook secret, and the verification of the
  signature. The result is the thrown error, or the store row and the verified
  event.
\<close>

definition verify_request ::
  "webhook_env \<Rightarrow> webhook_request \<Rightarrow> db \<Rightarrow> api_error + (store \<times> stripe_event)" where
  "verify_request env req d =
     (case (if truthy (wr_signature req) then wr_signature req else None) of
        None \<Rightarrow> Inl (InvalidRequest ''Missing stripe-signature header'')
      | Some signature \<Rightarrow>
     (case parse_store_id env (wr_body req) of
        None \<Rightarrow> Inl (InvalidRequest ''Invalid JSON'')
      | Some metaStoreId \<Rightarrow>
     (case (if truthy metaStoreId then metaStoreId else None) of
        None \<Rightarrow> Inl (InvalidRequest ''Missing store_id in metadata'')
      | Some storeId \<Rightarrow>
     (case find (\<lambda>s. st_id s = storeId) (stores d) of
        None \<Rightarrow> Inl (InvalidRequest ''Store not found or webhook secret missing'')
      | Some st \<Rightarrow>
     (case (if truthy (st_stripe_webhook_secret st) then st_stripe_webhook_secret st else None) of
        None \<Rightarrow> Inl (InvalidRequest ''Store not found or webhook secret missing'')
      | Some secret \<Rightarrow>
     (case constructEvent env (wr_body req) signature secret of
        Inl message \<Rightarrow> Inl (WebhookSignatureInvalid message)
      | Inr event \<Rightarrow> Inr (st, event)))))))"

text \<open>
  The handler: preamble, dedupe (lines 47-49), the event's processing and the
  event row. \<open>orderId\<close> is the identifier that \<open>uuid()\<close> gives the order if
  one is created.
\<close>

definition stripe_webhook ::
  "webhook_env \<Rightarrow> timestamp \<Rightarrow> string \<Rightarrow> webhook_request \<Rightarrow> db \<Rightarrow> (api_error + unit) \<times> db" where
  "stripe_webhook env t orderId req d =
     (case verify_request env req d of
        Inl e \<Rightarrow> (Inl e, d)
      | Inr (st, event) \<Rightarrow>
          if event_exists d (ev_id event) then (Inr (), d)
          else (Inr (), insert_event st event (process_event t orderId st event d)))"

section \<open>Availability as the handlers read it\<close>

text \<open>
  \<open>SELECT * FROM inventory WHERE store_id = ? AND sku = ?\<close> followed by
  \<open>(inv?.on_hand ?? 0) - (inv?.reserved ?? 0)\<close>.
\<close>

definition available :: "db \<Rightarrow> string \<Rightarrow> string \<Rightarrow> int" where
  "available d storeId sku =
     (case inventory d (storeId, sku) of None \<Rightarrow> 0 - 0 | Some r \<Rightarrow> on_hand r - reserved r)"

text \<open>\<open>SELECT * FROM variants WHERE store_id = ? AND sku = ?\<close>, first row.\<close>

definition find_variant :: "db \<Rightarrow> string \<Rightarrow> string \<Rightarrow> variant option" where
  "find_variant d storeId sku = find (\<lambda>v. v_store_id v = storeId \<and> v_sku v = sku) (variants d)"

text \<open>\<open>SELECT * FROM discounts WHERE code = ? AND store_id = ?\<close>, first row.\<close>

definition find_discount_by_code :: "db \<Rightarrow> string \<Rightarrow> string \<Rightarrow> discount option" where
  "find_discount_by_code d code storeId =
     find (\<lambda>x. d_code x = code \<and> d_store_id x = storeId) (discounts d)"

text \<open>
  A requested item \<open>{ sku, qty }\<close> of a request body; a missing sku is the empty
  string and a missing quantity is 0, both falsy. A line is an entry of
  \<open>validatedItems\<close> or \<open>orderItems\<close>.
\<close>

record item_request =
  ir_sku :: string
  ir_qty :: int

record line =
  l_sku :: string
  l_title :: string
  l_qty :: int
  l_unit_price_cents :: int

section \<open>Test orders: POST /v1/orders/test\<close>

record test_order_body =
  tb_customer_email :: "string option"
  tb_items :: "item_request list option"
  tb_discount_code :: "string option"

record order_response =
  or_order :: order
  or_items :: "line list"

text \<open>Lines 120-146: validation of the items against the store as it is read.\<close>

fun validate_order_items ::
  "string \<Rightarrow> db \<Rightarrow> item_request list \<Rightarrow> int \<Rightarrow> line list \<Rightarrow> api_error + (int \<times> line list)" where
  "validate_order_items storeId d [] subtotal orderItems = Inr (subtotal, orderItems)"
| "validate_order_items storeId d (it # rest) subtotal orderItems =
     (if ir_sku it = [] \<or> ir_qty it = 0 \<or> ir_qty it < 1
      then Inl (InvalidRequest ''Each item needs sku and qty > 0'')
      else (case find_variant d storeId (ir_sku it) of
              None \<Rightarrow> Inl (NotFound (''SKU not found: '' @ ir_sku it))
            | Some v \<Rightarrow>
                if available d storeId (ir_sku it) < ir_qty it
                then Inl (InsufficientInventory (ir_sku it))
                else validate_order_items storeId d rest
                       (subtotal + v_price_cents v * ir_qty it)
                       (orderItems @ [\<lparr>l_sku = ir_sku it, l_title = v_title v,
                                       l_qty = ir_qty it,
                                       l_unit_price_cents = v_price_cents v\<rparr>])))"

text \<open>
  Lines 199-202:
  \<open>UPDATE inventory SET on_hand = on_hand - ?, updated_at = ? WHERE store_id = ? AND sku = ?\<close>.
\<close>

definition deduct :: "timestamp \<Rightarrow> string \<Rightarrow> string \<Rightarrow> int \<Rightarrow> db \<Rightarrow> db" where
  "deduct t storeId sku qty d =
     (case inventory d (storeId, sku) of
        None \<Rightarrow> d
      | Some r \<Rightarrow>
          d\<lparr>inventory := (inventory d)((storeId, sku) \<mapsto>
               r\<lparr>on_hand := on_hand r - qty, updated_at := t\<rparr>)\<rparr>)"

text \<open>Lines 191-203: per line an order item and the deduction.\<close>

fun deduct_items :: "timestamp \<Rightarrow> string \<Rightarrow> string \<Rightarrow> line list \<Rightarrow> db \<Rightarrow> db" where
  "deduct_items t storeId orderId [] d = d"
| "deduct_items t storeId orderId (item # items) d =
     deduct_items t storeId orderId items
       (deduct t storeId (l_sku item) (l_qty item)
          (d\<lparr>order_items := order_items d @
                [\<lparr>oi_order_id = orderId, oi_sku = l_sku item, oi_title = l_title item,
                  oi_qty = l_qty item, oi_unit_price_cents = l_unit_price_cents item\<rparr>]\<rparr>))"

text \<open>Lines 148-170: the discount of the request, if a code is given.\<close>

definition test_order_discount ::
  "timestamp \<Rightarrow> string \<Rightarrow> db \<Rightarrow> string option \<Rightarrow> int \<Rightarrow> string
     \<Rightarrow> api_error + (discount option \<times> int)" where
  "test_order_discount t storeId d discountCode subtotal customerEmail =
     (case (if truthy discountCode then discountCode else None) of
        None \<Rightarrow> Inr (None, 0)
      | Some code \<Rightarrow>
          (case find_discount_by_code d (trim (toUpperCase code)) storeId of
             None \<Rightarrow> Inl (NotFound ''Discount code not found'')
           | Some discountRow \<Rightarrow>
               (case validateDiscount d t discountRow subtotal customerEmail of
                  Inl e \<Rightarrow> Inl e
                | Inr _ \<Rightarrow> Inr (Some discountRow, calculateDiscount discountRow subtotal))))"

text \<open>
  Lines 172-225: the order row, the lines, and the discount usage. The order's
  \<open>created_at\<close> is not a field of the order rows here.
\<close>

definition create_test_order ::
  "timestamp \<Rightarrow> string \<Rightarrow> store \<Rightarrow> string \<Rightarrow> int \<Rightarrow> line list \<Rightarrow> discount option \<Rightarrow> int
     \<Rightarrow> db \<Rightarrow> order_response \<times> db" where
  "create_test_order t orderId st customerEmail subtotal orderItems disc discountAmountCents d =
     (let count = length (filter (\<lambda>x. o_store_id x = st_id st) (orders d));
          row = \<lparr>o_id = orderId, o_store_id = st_id st, o_number = order_number count,
                 o_status = ''paid'', o_customer_email = customerEmail, o_ship_to = None,
                 o_subtotal_cents = subtotal, o_tax_cents = 0, o_shipping_cents = 0,
                 o_total_cents = subtotal - discountAmountCents, o_currency = None,
                 o_discount_code = map_option d_code disc,
                 o_discount_id = map_option d_id disc,
                 o_discount_amount_cents = discountAmountCents,
                 o_stripe_checkout_session_id = None,
                 o_stripe_payment_intent_id = None\<rparr>;
          d1 = d\<lparr>orders := orders d @ [row]\<rparr>;
          d2 = deduct_items t (st_id st) orderId orderItems d1;
          d3 = (case disc of
                  None \<Rightarrow> d2
                | Some x \<Rightarrow>
                    if discountAmountCents > 0
                    then (let d21 = increment_usage t (d_id x) d2
                          in d21\<lparr>discount_usage := discount_usage d21 @
                                   [\<lparr>du_discount_id = d_id x, du_order_id = orderId,
                                     du_customer_email = toLowerCase customerEmail,
                                     du_discount_amount_cents = discountAmountCents\<rparr>]\<rparr>)
                    else d2)
      in (\<lparr>or_order = row, or_items = orderItems\<rparr>, d3))"

definition test_order ::
  "timestamp \<Rightarrow> string \<Rightarrow> store \<Rightarrow> test_order_body \<Rightarrow> db \<Rightarrow> (api_error + order_response) \<times> db" where
  "test_order t orderId st body d =
     (case (if truthy (tb_customer_email body) then tb_customer_email body else None) of
        None \<Rightarrow> (Inl (InvalidRequest ''customer_email is required''), d)
      | Some customerEmail \<Rightarrow>
     (case tb_items body of
        None \<Rightarrow> (Inl (InvalidRequest ''items array is required''), d)
      | Some items \<Rightarrow>
          if items = [] then (Inl (InvalidRequest ''items array is required''), d)
          else (case validate_order_items (st_id st) d items 0 [] of
                  Inl e \<Rightarrow> (Inl e, d)
                | Inr (subtotal, orderItems) \<Rightarrow>
                    (case test_order_discount t (st_id st) d (tb_discount_code body) subtotal
                            customerEmail of
                       Inl e \<Rightarrow> (Inl e, d)
                     | Inr (disc, discountAmountCents) \<Rightarrow>
                         (case create_test_order t orderId st customerEmail subtotal orderItems
                                 disc discountAmountCents d of
                            (resp, d') \<Rightarrow> (Inr resp, d'))))))"

section \<open>Cart items: POST /v1/carts/:cartId/items\<close>

record totals =
  subtotal_cents :: int
  discount_cents :: int
  shipping_cents :: int
  tax_cents :: int
  total_cents :: int

record discount_info =
  di_code :: string
  di_type :: discount_type
  di_amount_cents :: int

record cart_response =
  cr_id :: string
  cr_status :: cart_status
  cr_currency :: string
  cr_customer_email :: string
  cr_items :: "line list"
  cr_discount :: "discount_info option"
  cr_totals :: totals
  cr_expires_at :: timestamp

record discount_response =
  dr_discount :: "discount_info option"
  dr_totals :: totals

text \<open>Lines 78-105: every requested item is validated before the cart is touched.\<close>

fun validate_cart_items ::
  "string \<Rightarrow> db \<Rightarrow> item_request list \<Rightarrow> line list \<Rightarrow> api_error + line list" where
  "validate_cart_items storeId d [] validatedItems = Inr validatedItems"
| "validate_cart_items storeId d (it # rest) validatedItems =
     (if ir_sku it = [] \<or> ir_qty it = 0 \<or> ir_qty it < 1
      then Inl (InvalidRequest ''Each item needs sku and qty > 0'')
      else (case find_variant d storeId (ir_sku it) of
              None \<Rightarrow> Inl (NotFound (''SKU not found: '' @ ir_sku it))
            | Some v \<Rightarrow>
                if v_status v \<noteq> ''active''
                then Inl (InvalidRequest (''SKU not active: '' @ ir_sku it))
                else if available d storeId (ir_sku it) < ir_qty it
                then Inl (InsufficientInventory (ir_sku it))
                else validate_cart_items storeId d rest
                       (validatedItems @ [\<lparr>l_sku = ir_sku it, l_title = v_title v,
                                           l_qty = ir_qty it,
                                           l_unit_price_cents = v_price_cents v\<rparr>])))"

text \<open>Lines 107-115: \<open>DELETE FROM cart_items WHERE cart_id = ?\<close> and the inserts.\<close>

definition replace_cart_items :: "string \<Rightarrow> line list \<Rightarrow> db \<Rightarrow> db" where
  "replace_cart_items cartId validatedItems d =
     d\<lparr>cart_items := filter (\<lambda>i. ci_cart_id i \<noteq> cartId) (cart_items d) @
          map (\<lambda>item. \<lparr>ci_cart_id = cartId, ci_sku = l_sku item, ci_title = l_title item,
                        ci_qty = l_qty item, ci_unit_price_cents = l_unit_price_cents item\<rparr>)
              validatedItems\<rparr>"

text \<open>
  Lines 121-156: the attached discount is revalidated; an invalid or deleted one
  is detached. The result is \<open>discountInfo\<close>, \<open>discountAmountCents\<close> and the store.
\<close>

definition items_discount ::
  "timestamp \<Rightarrow> store \<Rightarrow> string \<Rightarrow> cart \<Rightarrow> int \<Rightarrow> db \<Rightarrow> discount_info option \<times> int \<times> db" where
  "items_discount t st cartId crt subtotalCents d =
     (case c_discount_id crt of
        None \<Rightarrow> (None, 0, d)
      | Some discountId \<Rightarrow>
          if discountId = [] then (None, 0, d)
          else (case find_discount d discountId (st_id st) of
                  Some disc \<Rightarrow>
                    (case validateDiscount d t disc subtotalCents (c_customer_email crt) of
                       Inr _ \<Rightarrow>
                         (let discountAmountCents = calculateDiscount disc subtotalCents
                          in (Some \<lparr>di_code = d_code disc, di_type = d_type disc,
                                     di_amount_cents = discountAmountCents\<rparr>,
                              discountAmountCents,
                              update_cart cartId
                                (\<lambda>c. c\<lparr>c_discount_amount_cents := Some discountAmountCents\<rparr>) d))
                     | Inl _ \<Rightarrow> (None, 0, update_cart cartId clear_discount d))
                | None \<Rightarrow> (None, 0, update_cart cartId clear_discount d)))"

definition lines_of :: "cart_item list \<Rightarrow> line list" where
  "lines_of items =
     map (\<lambda>item. \<lparr>l_sku = ci_sku item, l_title = ci_title item, l_qty = ci_qty item,
                   l_unit_price_cents = ci_unit_price_cents item\<rparr>) items"

definition totals_of :: "int \<Rightarrow> int \<Rightarrow> totals" where
  "totals_of subtotalCents discountAmountCents =
     \<lparr>subtotal_cents = subtotalCents, discount_cents = discountAmountCents,
      shipping_cents = 0, tax_cents = 0, total_cents = subtotalCents - discountAmountCents\<rparr>"

definition cart_items_route ::
  "timestamp \<Rightarrow> store \<Rightarrow> string \<Rightarrow> item_request list option \<Rightarrow> db
     \<Rightarrow> (api_error + cart_response) \<times> db" where
  "cart_items_route t st cartId body_items d =
     (case body_items of
        None \<Rightarrow> (Inl (InvalidRequest ''items array is required''), d)
      | Some items \<Rightarrow>
          if items = [] then (Inl (InvalidRequest ''items array is required''), d)
          else (case find_cart d cartId (st_id st) of
                  None \<Rightarrow> (Inl (NotFound ''Cart not found''), d)
                | Some crt \<Rightarrow>
                    if c_status crt \<noteq> Open then (Inl (Conflict ''Cart is not open''), d)
                    else (case validate_cart_items (st_id st) d items [] of
                            Inl e \<Rightarrow> (Inl e, d)
                          | Inr validatedItems \<Rightarrow>
                              (let d1 = replace_cart_items cartId validatedItems d;
                                   allCartItems = select_cart_items d1 cartId;
                                   subtotalCents = subtotal_of allCartItems
                               in case items_discount t st cartId crt subtotalCents d1 of
                                    (discountInfo, discountAmountCents, d2) \<Rightarrow>
                                      (Inr \<lparr>cr_id = c_id crt, cr_status = c_status crt,
                                            cr_currency = c_currency crt,
                                            cr_customer_email = c_customer_email crt,
                                            cr_items = lines_of allCartItems,
                                            cr_discount = discountInfo,
                                            cr_totals = totals_of subtotalCents discountAmountCents,
                                            cr_expires_at = c_expires_at crt\<rparr>,
                                       d2)))))"

section \<open>Discounts on a cart: apply-discount and DELETE discount\<close>

definition apply_discount ::
  "timestamp \<Rightarrow> store \<Rightarrow> string \<Rightarrow> string option \<Rightarrow> db
     \<Rightarrow> (api_error + discount_response) \<times> db" where
  "apply_discount t st cartId body_code d =
     (case (if truthy body_code then body_code else None) of
        None \<Rightarrow> (Inl (InvalidRequest ''code is required''), d)
      | Some code \<Rightarrow>
          (case find_cart d cartId (st_id st) of
             None \<Rightarrow> (Inl (NotFound ''Cart not found''), d)
           | Some crt \<Rightarrow>
               if c_status crt \<noteq> Open then (Inl (Conflict ''Cart is not open''), d)
               else (case find_discount_by_code d (trim (toUpperCase code)) (st_id st) of
                       None \<Rightarrow> (Inl (NotFound ''Discount code not found''), d)
                     | Some disc \<Rightarrow>
                         (let items = select_cart_items d cartId in
                          if items = [] then (Inl (InvalidRequest ''Cart is empty''), d)
                          else (let subtotalCents = subtotal_of items in
                                case validateDiscount d t disc subtotalCents
                                       (c_customer_email crt) of
                                  Inl e \<Rightarrow> (Inl e, d)
                                | Inr _ \<Rightarrow>
                                    (let discountAmountCents =
                                           calculateDiscount disc subtotalCents
                                     in (Inr \<lparr>dr_discount =
                                                Some \<lparr>di_code = d_code disc,
                                                      di_type = d_type disc,
                                                      di_amount_cents = discountAmountCents\<rparr>,
                                              dr_totals =
                                                totals_of subtotalCents discountAmountCents\<rparr>,
                                         update_cart cartId
                                           (\<lambda>c. c\<lparr>c_discount_code := Some (d_code disc),
                                                  c_discount_id := Some (d_id disc),
                                                  c_discount_amount_cents :=
                                                    Some discountAmountCents\<rparr>) d)))))))"

definition remove_discount ::
  "store \<Rightarrow> string \<Rightarrow> db \<Rightarrow> (api_error + discount_response) \<times> db" where
  "remove_discount st cartId d =
     (case find_cart d cartId (st_id st) of
        None \<Rightarrow> (Inl (NotFound ''Cart not found''), d)
      | Some crt \<Rightarrow>
          if c_status crt \<noteq> Open then (Inl (Conflict ''Cart is not open''), d)
          else (let d1 = update_cart cartId clear_discount d;
                    subtotalCents = subtotal_of (select_cart_items d1 cartId)
                in (Inr \<lparr>dr_discount = None, dr_totals = totals_of subtotalCents 0\<rparr>, d1)))"

section \<open>Observations on the store\<close>

text \<open>The counters of one inventory row, None where the row is missing.\<close>

definition reserved_of :: "db \<Rightarrow> string \<times> string \<Rightarrow> int option" where
  "reserved_of d key = map_option reserved (inventory d key)"

definition on_hand_of :: "db \<Rightarrow> string \<times> string \<Rightarrow> int option" where
  "on_hand_of d key = map_option on_hand (inventory d key)"

text \<open>The quantity that the entries of \<open>reservedItems\<close> hold on one inventory row.\<close>

definition pending :: "string \<Rightarrow> (string \<times> int) list \<Rightarrow> string \<times> string \<Rightarrow> int" where
  "pending storeId acc key =
     sum_list (map snd (filter (\<lambda>(sku, qty). (storeId, sku) = key) acc))"


text \<open>A row's \<open>reserved\<close> after a sequence of releases: each one subtracts and floors at zero.\<close>

definition floor_decrements :: "int \<Rightarrow> int list \<Rightarrow> int" where
  "floor_decrements r qtys = foldl (\<lambda>r qty. max (r - qty) 0) r qtys"

text \<open>The quantities, in order, of the items of a list that fall on one inventory row.\<close>

definition items_quantities :: "string \<Rightarrow> cart_item list \<Rightarrow> string \<times> string \<Rightarrow> int list" where
  "items_quantities storeId items key =
     map ci_qty (filter (\<lambda>i. (storeId, ci_sku i) = key) items)"

text \<open>The same over the items of every cart that a sweep at time \<open>t\<close> selects.\<close>

definition sweep_quantities :: "timestamp \<Rightarrow> db \<Rightarrow> string \<times> string \<Rightarrow> int list" where
  "sweep_quantities t d key =
     concat (map (\<lambda>c. items_quantities (c_store_id c) (select_cart_items d (c_id c)) key)
                 (expired_carts t d))"

text \<open>The log rows that the sweep writes for one cart.\<close>

definition release_logs :: "db \<Rightarrow> cart \<Rightarrow> inventory_log list" where
  "release_logs d c =
     map (\<lambda>i. \<lparr>il_store_id = c_store_id c, il_sku = ci_sku i, il_delta = - ci_qty i,
                il_reason = ''release''\<rparr>) (select_cart_items d (c_id c))"

text \<open>The total quantity that the items of a request ask of one inventory row.\<close>

definition requested_quantity :: "string \<Rightarrow> item_request list \<Rightarrow> string \<times> string \<Rightarrow> int" where
  "requested_quantity storeId items key =
     sum_list (map ir_qty (filter (\<lambda>i. (storeId, ir_sku i) = key) items))"

text \<open>The store with the \<open>expires_at\<close> of one cart set to another time.\<close>

definition set_expires_at :: "string \<Rightarrow> timestamp \<Rightarrow> db \<Rightarrow> db" where
  "set_expires_at cartId e d = update_cart cartId (\<lambda>c. c\<lparr>c_expires_at := e\<rparr>) d"

text \<open>The same change on the \<open>expires_at\<close> that the item replacement echoes in its response.\<close>

definition echo_expires_at ::
  "timestamp \<Rightarrow> api_error + cart_response \<Rightarrow> api_error + cart_response" where
  "echo_expires_at e res = map_sum id (\<lambda>r. r\<lparr>cr_expires_at := e\<rparr>) res"

section \<open>Example stores\<close>

definition empty_db :: db where
  "empty_db =
     \<lparr>inventory = Map.empty, inventory_logs = [], carts = [], cart_items = [],
      discounts = [], discount_usage = [], orders = [], order_items = [], events = [],
      variants = [], stores = []\<rparr>"

definition reserve_ex :: db where
  "reserve_ex =
     empty_db\<lparr>inventory := [(''s1'', ''A'') \<mapsto> \<lparr>on_hand = 5, reserved = 0, updated_at = 0\<rparr>]\<rparr>"

text \<open>
  Spec section 8: a cart over A (quantity 5, available 5) and B (quantity 3,
  available 2), and a processor that accepts everything.
\<close>

definition store_ex :: store where
  "store_ex = \<lparr>st_id = ''s1'', st_stripe_secret_key = Some ''sk'',
               st_stripe_webhook_secret = Some ''whsec''\<rparr>"

definition cart_ex :: cart where
  "cart_ex = \<lparr>c_id = ''c1'', c_store_id = ''s1'', c_customer_email = ''Ann@x.io'',
              c_status = Open, c_expires_at = 1800000, c_discount_code = None,
              c_discount_id = None, c_discount_amount_cents = None,
              c_stripe_checkout_session_id = None, c_currency = ''USD''\<rparr>"

definition item_A :: cart_item where
  "item_A = \<lparr>ci_cart_id = ''c1'', ci_sku = ''A'', ci_title = ''Widget A'', ci_qty = 5,
             ci_unit_price_cents = 100\<rparr>"

definition item_B :: cart_item where
  "item_B = \<lparr>ci_cart_id = ''c1'', ci_sku = ''B'', ci_title = ''Widget B'', ci_qty = 3,
             ci_unit_price_cents = 200\<rparr>"

definition checkout_ex :: db where
  "checkout_ex =
     empty_db\<lparr>inventory := [(''s1'', ''A'') \<mapsto> \<lparr>on_hand = 5, reserved = 0, updated_at = 0\<rparr>,
                             (''s1'', ''B'') \<mapsto> \<lparr>on_hand = 2, reserved = 0, updated_at = 0\<rparr>],
              carts := [cart_ex],
              cart_items := [item_A, item_B]\<rparr>"

definition api_ok :: stripe_api where
  "api_ok = \<lparr>coupons_create = (\<lambda>amount name. Some ''co_1''),
             sessions_create = (\<lambda>p. Some \<lparr>ss_id = ''cs_1'', ss_url = Some ''https://pay''\<rparr>)\<rparr>"

definition body_ex :: checkout_body where
  "body_ex = \<lparr>success_url = Some ''https://ok'', cancel_url = Some ''https://no''\<rparr>"

text \<open>
  A store for the sweep: cart c1 is open and expires at minute 30, cart c2 is
  checked out; c1 holds 5 of A and c2 holds 1, and 6 of A are reserved.
\<close>

definition cart_co :: cart where
  "cart_co = cart_ex\<lparr>c_id := ''c2'', c_status := CheckedOut,
                      c_stripe_checkout_session_id := Some ''cs_0''\<rparr>"

definition item_A2 :: cart_item where
  "item_A2 = \<lparr>ci_cart_id = ''c2'', ci_sku = ''A'', ci_title = ''Widget A'', ci_qty = 1,
              ci_unit_price_cents = 100\<rparr>"

definition sweep_ex :: db where
  "sweep_ex =
     empty_db\<lparr>inventory := [(''s1'', ''A'') \<mapsto> \<lparr>on_hand = 10, reserved = 6, updated_at = 0\<rparr>],
              carts := [cart_ex, cart_co],
              cart_items := [item_A, item_A2]\<rparr>"

text \<open>A webhook environment in which every body parses and verifies to one given event.\<close>

definition env_of :: "stripe_event \<Rightarrow> webhook_env" where
  "env_of ev = \<lparr>parse_store_id = (\<lambda>body. Some (Some ''s1'')),
                constructEvent = (\<lambda>body signature secret. Inr ev)\<rparr>"

definition request_ex :: webhook_request where
  "request_ex = \<lparr>wr_signature = Some ''t=1,v1=ab'', wr_body = ''{}''\<rparr>"

definition event_c1 :: stripe_event where
  "event_c1 = \<lparr>ev_id = ''evt_1'', ev_type = ''checkout.session.completed'',
               ev_session_id = ''cs_1'', ev_cart_id = Some ''c1'', ev_discount_id = None,
               ev_amount_shipping = None, ev_amount_tax = None, ev_amount_total = Some 200,
               ev_shipping_address = None, ev_payment_intent = Some ''pi_1'',
               ev_payload = ''{}''\<rparr>"

text \<open>
  Two open carts of store s1, each with 2 of A, and 5 of A on hand with none
  reserved. Cart c1 checks out at second 1, the sweep runs at minute 31 and 40
  seconds, and the payment of c1 completes at minute 33 and 20 seconds.
\<close>

definition item_c1 :: cart_item where
  "item_c1 = item_A\<lparr>ci_qty := 2\<rparr>"

definition item_c2 :: cart_item where
  "item_c2 = item_A\<lparr>ci_cart_id := ''c2'', ci_qty := 2\<rparr>"

definition cart_c2 :: cart where
  "cart_c2 = cart_ex\<lparr>c_id := ''c2''\<rparr>"

definition oversell_ex :: db where
  "oversell_ex =
     empty_db\<lparr>inventory := [(''s1'', ''A'') \<mapsto> \<lparr>on_hand = 5, reserved = 0, updated_at = 0\<rparr>],
              carts := [cart_ex, cart_c2],
              cart_items := [item_c1, item_c2],
              stores := [store_ex]\<rparr>"

definition oversell_1 :: db where
  "oversell_1 = snd (checkout api_ok 1000 store_ex ''c1'' body_ex oversell_ex)"

definition oversell_2 :: db where
  "oversell_2 = handleCron 1900000 oversell_1"

definition oversell_3 :: db where
  "oversell_3 = snd (stripe_webhook (env_of event_c1) 2000000 ''o1'' request_ex oversell_2)"

text \<open>
  A discount with \<open>usage_limit = 1\<close> attached to two checked-out carts that were
  each charged a discount of 500, and the two completion events.
\<close>

definition discount_ex :: discount where
  "discount_ex = \<lparr>d_id = ''d1'', d_store_id = ''s1'', d_code = ''SAVE5'', d_type = FixedAmount,
                  d_value = 500, d_status = ''active'', d_min_purchase_cents = 0,
                  d_max_discount_cents = None, d_starts_at = None, d_expires_at = None,
                  d_usage_limit = Some 1, d_usage_limit_per_customer = None,
                  d_usage_count = 0, d_updated_at = 0\<rparr>"

definition cart_d1 :: cart where
  "cart_d1 = cart_ex\<lparr>c_status := CheckedOut, c_discount_code := Some ''SAVE5'',
                      c_discount_id := Some ''d1'', c_discount_amount_cents := Some 500,
                      c_stripe_checkout_session_id := Some ''cs_1''\<rparr>"

definition cart_d2 :: cart where
  "cart_d2 = cart_d1\<lparr>c_id := ''c2'', c_customer_email := ''Bob@x.io'',
                      c_stripe_checkout_session_id := Some ''cs_2''\<rparr>"

definition event_d1 :: stripe_event where
  "event_d1 = event_c1\<lparr>ev_discount_id := Some ''d1''\<rparr>"

definition event_d2 :: stripe_event where
  "event_d2 = event_d1\<lparr>ev_id := ''evt_2'', ev_session_id := ''cs_2'', ev_cart_id := Some ''c2''\<rparr>"

definition limit_ex :: db where
  "limit_ex =
     empty_db\<lparr>inventory := [(''s1'', ''A'') \<mapsto> \<lparr>on_hand = 5, reserved = 4, updated_at = 0\<rparr>],
              carts := [cart_d1, cart_d2],
              cart_items := [item_c1, item_c2],
              discounts := [discount_ex],
              stores := [store_ex]\<rparr>"

definition limit_1 :: db where
  "limit_1 = snd (stripe_webhook (env_of event_d1) 2000000 ''o1'' request_ex limit_ex)"

definition limit_2 :: db where
  "limit_2 = snd (stripe_webhook (env_of event_d2) 2000001 ''o2'' request_ex limit_1)"

text \<open>The \<open>baseDiscount\<close> of tests/discounts.test.ts.\<close>

definition baseDiscount :: discount where
  "baseDiscount = \<lparr>d_id = ''test-id'', d_store_id = ''store-id'', d_code = ''TEST10'',
                   d_type = Percentage, d_value = 10, d_status = ''active'',
                   d_min_purchase_cents = 0, d_max_discount_cents = None, d_starts_at = None,
                   d_expires_at = None, d_usage_limit = None,
                   d_usage_limit_per_customer = None, d_usage_count = 0, d_updated_at = 0\<rparr>"

text \<open>A test order for 3 of A twice, with 5 of A on hand and none reserved.\<close>

definition variant_A :: variant where
  "variant_A = \<lparr>v_store_id = ''s1'', v_sku = ''A'', v_title = ''Widget A'', v_price_cents = 100,
                v_status = ''active''\<rparr>"

definition test_order_ex :: db where
  "test_order_ex =
     empty_db\<lparr>inventory := [(''s1'', ''A'') \<mapsto> \<lparr>on_hand = 5, reserved = 0, updated_at = 0\<rparr>],
              variants := [variant_A],
              stores := [store_ex]\<rparr>"

definition test_body_ex :: test_order_body where
  "test_body_ex = \<lparr>tb_customer_email = Some ''ann@x.io'',
                   tb_items = Some [\<lparr>ir_sku = ''A'', ir_qty = 3\<rparr>, \<lparr>ir_sku = ''A'', ir_qty = 3\<rparr>],
                   tb_discount_code = None\<rparr>"





text \<open>The same store after the discount row was deleted, and the first event processed on it.\<close>

definition gone_ex :: db where
  "gone_ex = limit_ex\<lparr>discounts := []\<rparr>"

definition gone_1 :: db where
  "gone_1 = snd (stripe_webhook (env_of event_d1) 2000000 ''o1'' request_ex gone_ex)"

section \<open>Unfolding the example stores\<close>

lemmas ex_defs = checkout_ex_def empty_db_def cart_ex_def item_A_def item_B_def store_ex_def
  api_ok_def body_ex_def

lemmas sweep_ex_defs = sweep_ex_def empty_db_def cart_ex_def cart_co_def item_A_def item_A2_def

lemmas run_defs = checkout_def truthy_def find_cart_def select_cart_items_def
  checkout_discount_def checkout_payment_def session_params_of_def reserve_def release_def sell_def
  subtotal_of_def update_cart_def handleCron_def expired_carts_def insert_inventory_log_def
  stripe_webhook_def verify_request_def event_exists_def process_event_def
  materialize_order_def webhook_discount_def insert_event_def find_discount_def
  increment_usage_def discount_is_valid_def

lemmas oversell_defs = oversell_ex_def empty_db_def cart_ex_def cart_c2_def item_A_def
  item_c1_def item_c2_def store_ex_def api_ok_def body_ex_def env_of_def request_ex_def
  event_c1_def

lemmas limit_defs = limit_ex_def empty_db_def cart_ex_def cart_d1_def cart_d2_def item_A_def
  item_c1_def item_c2_def store_ex_def env_of_def request_ex_def event_c1_def event_d1_def
  event_d2_def discount_ex_def

section \<open>Frame and counter lemmas for the inventory statements\<close>

lemma release_frame: "release t s k q d = d\<lparr>inventory := inventory (release t s k q d)\<rparr>"
  by (simp add: release_def split: option.splits)


lemma release_reserved_of:
  "reserved_of (release t s k q d) key =
     (if key = (s, k) then map_option (\<lambda>r. max (r - q) 0) (reserved_of d key) else reserved_of d key)"
  by (simp add: release_def reserved_of_def split: option.splits)

lemma release_on_hand_of: "on_hand_of (release t s k q d) key = on_hand_of d key"
  by (simp add: release_def on_hand_of_def split: option.splits)




lemma pending_Nil [simp]: "pending s [] key = 0"
  by (simp add: pending_def)

lemma pending_Cons:
  "pending s ((k, q) # acc) key = (if key = (s, k) then q else 0) + pending s acc key"
  by (auto simp: pending_def)



section \<open>The reservation loop and its rollback\<close>






section \<open>Cart lookups and the steps of checkout\<close>

lemma find_map_preserve:
  "(\<And>x. P (g x) = P x) \<Longrightarrow> find P (map g xs) = map_option g (find P xs)"
  by (induction xs) auto

lemma find_cart_update_cart:
  assumes "\<And>c. c_id (f c) = c_id c" and "\<And>c. c_store_id (f c) = c_store_id c"
  shows "find_cart (update_cart cid f d) x s =
           map_option (\<lambda>c. if c_id c = cid then f c else c) (find_cart d x s)"
  unfolding find_cart_def update_cart_def
  by (simp add: find_map_preserve assms)


lemma update_cart_inventory [simp]: "inventory (update_cart cid f d) = inventory d"
  by (simp add: update_cart_def)

lemma update_cart_reserved_of [simp]: "reserved_of (update_cart cid f d) = reserved_of d"
  by (simp add: reserved_of_def fun_eq_iff)

lemma update_cart_on_hand_of [simp]: "on_hand_of (update_cart cid f d) = on_hand_of d"
  by (simp add: on_hand_of_def fun_eq_iff)


lemma find_some_pred: "find P xs = Some x \<Longrightarrow> P x"
  by (induction xs) (auto split: if_splits)

lemma update_cart_select_cart_items [simp]:
  "select_cart_items (update_cart cid f d) x = select_cart_items d x"
  by (simp add: select_cart_items_def update_cart_def)











section \<open>The conditional reservation\<close>

text \<open>
  Claim C2, as the code has it. The reservation statement reports one changed
  row exactly when the row of (store, sku) exists and \<open>on_hand - reserved >= qty\<close>
  holds for it, and no row otherwise. When it reports none the store is
  unchanged. When it reports one, the row's \<open>reserved\<close> has grown by exactly
  \<open>qty\<close>, its \<open>updated_at\<close> is the current time, and nothing else in the store
  has changed.
\<close>

theorem reserve_conditional_update:
  assumes "reserve t storeId sku qty d = (changes, d')"
  shows "(changes = 0 \<or> changes = 1) \<and>
         (changes \<noteq> 0 \<longleftrightarrow>
            (\<exists>r. inventory d (storeId, sku) = Some r \<and> qty \<le> on_hand r - reserved r)) \<and>
         (changes = 0 \<longrightarrow> d' = d) \<and>
         (\<forall>r. changes \<noteq> 0 \<and> inventory d (storeId, sku) = Some r \<longrightarrow>
              d' = d\<lparr>inventory := (inventory d)((storeId, sku) \<mapsto>
                         r\<lparr>reserved := reserved r + qty, updated_at := t\<rparr>)\<rparr>)"
  using assms by (auto simp: reserve_def split: option.splits if_splits)

theorem reserve_conditional_update_witness:
  "fst (reserve 1000 ''s1'' ''A'' 2 reserve_ex) = 1 \<and>
   snd (reserve 1000 ''s1'' ''A'' 2 reserve_ex) =
     reserve_ex\<lparr>inventory := (inventory reserve_ex)((''s1'', ''A'') \<mapsto>
                   \<lparr>on_hand = 5, reserved = 2, updated_at = 1000\<rparr>)\<rparr> \<and>
   fst (reserve 1000 ''s1'' ''A'' 6 reserve_ex) = 0 \<and>
   snd (reserve 1000 ''s1'' ''A'' 6 reserve_ex) = reserve_ex"
proof -
  have row: "inventory reserve_ex (''s1'', ''A'') = Some \<lparr>on_hand = 5, reserved = 0, updated_at = 0\<rparr>"
    by (simp add: reserve_ex_def empty_db_def)
  have ok: "\<exists>r. inventory reserve_ex (''s1'', ''A'') = Some r \<and> 2 \<le> on_hand r - reserved r"
    by (simp add: row)
  have no: "\<not> (\<exists>r. inventory reserve_ex (''s1'', ''A'') = Some r \<and> 6 \<le> on_hand r - reserved r)"
    by (simp add: row)
  note a = reserve_conditional_update
             [of 1000 "''s1''" "''A''" 2 reserve_ex
                 "fst (reserve 1000 ''s1'' ''A'' 2 reserve_ex)"
                 "snd (reserve 1000 ''s1'' ''A'' 2 reserve_ex)"]
  note b = reserve_conditional_update
             [of 1000 "''s1''" "''A''" 6 reserve_ex
                 "fst (reserve 1000 ''s1'' ''A'' 6 reserve_ex)"
                 "snd (reserve 1000 ''s1'' ''A'' 6 reserve_ex)"]
  from a ok row have "fst (reserve 1000 ''s1'' ''A'' 2 reserve_ex) = 1 \<and>
      snd (reserve 1000 ''s1'' ''A'' 2 reserve_ex) =
        reserve_ex\<lparr>inventory := (inventory reserve_ex)((''s1'', ''A'') \<mapsto>
                   \<lparr>on_hand = 5, reserved = 2, updated_at = 1000\<rparr>)\<rparr>"
    by auto
  moreover from b no have "fst (reserve 1000 ''s1'' ''A'' 6 reserve_ex) = 0 \<and>
      snd (reserve 1000 ''s1'' ''A'' 6 reserve_ex) = reserve_ex"
    by auto
  ultimately show ?thesis by simp
qed

text \<open>
  Claim C2 as stated says that a successful reservation changes nothing but
  \<open>reserved\<close>. In the example the row after the reservation is not the row before
  it with \<open>reserved\<close> raised by 2: the statement also sets \<open>updated_at\<close>.
\<close>

theorem reserve_changes_nothing_else_counterexample:
  "fst (reserve 1000 ''s1'' ''A'' 2 reserve_ex) = 1 \<and>
   inventory (snd (reserve 1000 ''s1'' ''A'' 2 reserve_ex)) (''s1'', ''A'') \<noteq>
     map_option (\<lambda>r. r\<lparr>reserved := reserved r + 2\<rparr>) (inventory reserve_ex (''s1'', ''A''))"
  by (simp add: reserve_def reserve_ex_def empty_db_def)

section \<open>The release loop of the sweep\<close>

lemma insert_inventory_log_reserved_of [simp]:
  "reserved_of (insert_inventory_log s k q r d) = reserved_of d"
  by (simp add: insert_inventory_log_def reserved_of_def fun_eq_iff)

lemma insert_inventory_log_on_hand_of [simp]:
  "on_hand_of (insert_inventory_log s k q r d) = on_hand_of d"
  by (simp add: insert_inventory_log_def on_hand_of_def fun_eq_iff)

lemma floor_decrements_Nil [simp]: "floor_decrements r [] = r"
  by (simp add: floor_decrements_def)

lemma floor_decrements_Cons [simp]:
  "floor_decrements r (q # qs) = floor_decrements (max (r - q) 0) qs"
  by (simp add: floor_decrements_def)

lemma floor_decrements_append [simp]:
  "floor_decrements r (qs @ qs') = floor_decrements (floor_decrements r qs) qs'"
  by (simp add: floor_decrements_def)

lemma items_quantities_Nil [simp]: "items_quantities s [] key = []"
  by (simp add: items_quantities_def)

lemma items_quantities_Cons:
  "items_quantities s (i # items) key =
     (if key = (s, ci_sku i) then [ci_qty i] else []) @ items_quantities s items key"
  by (auto simp: items_quantities_def)

lemma release_items_reserved_of:
  "reserved_of (release_items t s items d) key =
     map_option (\<lambda>r. floor_decrements r (items_quantities s items key)) (reserved_of d key)"
proof (induction items arbitrary: d)
  case Nil
  show ?case by (simp add: option.map_ident)
next
  case (Cons i items)
  show ?case
    by (cases "reserved_of d key")
       (auto simp: Cons.IH release_reserved_of items_quantities_Cons)
qed

lemma release_items_on_hand_of: "on_hand_of (release_items t s items d) key = on_hand_of d key"
  by (induction items arbitrary: d) (simp_all add: release_on_hand_of)

lemma release_inventory_logs [simp]:
  "inventory_logs (release t s k q d) = inventory_logs d"
  by (simp add: release_def split: option.splits)

lemma release_items_logs:
  "inventory_logs (release_items t s items d) =
     inventory_logs d @
       map (\<lambda>i. \<lparr>il_store_id = s, il_sku = ci_sku i, il_delta = - ci_qty i,
                  il_reason = ''release''\<rparr>) items"
proof (induction items arbitrary: d)
  case Nil show ?case by simp
next
  case (Cons i items)
  show ?case by (simp add: Cons.IH insert_inventory_log_def)
qed

lemma release_items_frame:
  "release_items t s items d =
     d\<lparr>inventory := inventory (release_items t s items d),
       inventory_logs := inventory_logs (release_items t s items d)\<rparr>"
proof (induction items arbitrary: d)
  case Nil show ?case by simp
next
  case (Cons i items)
  let ?d1 = "insert_inventory_log s (ci_sku i) (- ci_qty i) ''release''
               (release t s (ci_sku i) (ci_qty i) d)"
  have d1: "?d1 = d\<lparr>inventory := inventory ?d1, inventory_logs := inventory_logs ?d1\<rparr>"
    by (subst (1) release_frame) (simp add: insert_inventory_log_def)
  have "release_items t s (i # items) d = release_items t s items ?d1" by simp
  also have "\<dots> = ?d1\<lparr>inventory := inventory (release_items t s items ?d1),
                        inventory_logs := inventory_logs (release_items t s items ?d1)\<rparr>"
    by (rule Cons.IH)
  also have "\<dots> = d\<lparr>inventory := inventory (release_items t s items ?d1),
                        inventory_logs := inventory_logs (release_items t s items ?d1)\<rparr>"
    by (subst d1) simp
  finally show ?case by simp
qed


section \<open>The sweep over the selected carts\<close>

lemma release_items_carts [simp]: "carts (release_items t s items d) = carts d"
  by (subst release_items_frame) simp

lemma release_items_cart_items [simp]: "cart_items (release_items t s items d) = cart_items d"
  by (subst release_items_frame) simp

lemma release_items_select [simp]:
  "select_cart_items (release_items t s items d) x = select_cart_items d x"
  by (simp add: select_cart_items_def)

lemma sweep_carts_cart_items [simp]: "cart_items (sweep_carts t cs d) = cart_items d"
  by (induction cs arbitrary: d) (simp_all add: update_cart_def)

lemma sweep_carts_carts:
  "carts (sweep_carts t cs d) =
     map (\<lambda>c. if c_id c \<in> c_id ` set cs then c\<lparr>c_status := Expired\<rparr> else c) (carts d)"
proof (induction cs arbitrary: d)
  case Nil show ?case by simp
next
  case (Cons c cs)
  show ?case
    by (simp add: Cons.IH update_cart_def)
qed

lemma sweep_carts_reserved_of:
  "reserved_of (sweep_carts t cs d) key =
     map_option (\<lambda>r. floor_decrements r
        (concat (map (\<lambda>c. items_quantities (c_store_id c) (select_cart_items d (c_id c)) key) cs)))
        (reserved_of d key)"
proof (induction cs arbitrary: d)
  case Nil show ?case by (simp add: option.map_ident)
next
  case (Cons c cs)
  let ?d1 = "update_cart (c_id c) (\<lambda>c. c\<lparr>c_status := Expired\<rparr>)
               (release_items t (c_store_id c) (select_cart_items d (c_id c)) d)"
  have sel: "\<And>x. select_cart_items ?d1 x = select_cart_items d x"
    by simp
  have "reserved_of (sweep_carts t (c # cs) d) key =
        map_option (\<lambda>r. floor_decrements r
          (concat (map (\<lambda>c. items_quantities (c_store_id c) (select_cart_items d (c_id c)) key) cs)))
          (reserved_of ?d1 key)"
    using Cons.IH[of ?d1] by (simp add: sel)
  also have "reserved_of ?d1 key =
      map_option (\<lambda>r. floor_decrements r
          (items_quantities (c_store_id c) (select_cart_items d (c_id c)) key)) (reserved_of d key)"
    by (simp add: release_items_reserved_of)
  finally show ?case
    by (cases "reserved_of d key") simp_all
qed

lemma sweep_carts_on_hand_of: "on_hand_of (sweep_carts t cs d) key = on_hand_of d key"
  by (induction cs arbitrary: d) (simp_all add: release_items_on_hand_of)

lemma update_cart_inventory_logs [simp]:
  "inventory_logs (update_cart cid f d) = inventory_logs d"
  by (simp add: update_cart_def)

lemma sweep_carts_logs:
  "inventory_logs (sweep_carts t cs d) = inventory_logs d @ concat (map (release_logs d) cs)"
proof (induction cs arbitrary: d)
  case Nil show ?case by simp
next
  case (Cons c cs)
  let ?d1 = "update_cart (c_id c) (\<lambda>c. c\<lparr>c_status := Expired\<rparr>)
               (release_items t (c_store_id c) (select_cart_items d (c_id c)) d)"
  have sel: "\<And>x. select_cart_items ?d1 x = select_cart_items d x"
    by simp
  have rl: "\<And>x. release_logs ?d1 x = release_logs d x"
    unfolding release_logs_def sel ..
  show ?case
    using Cons.IH[of ?d1] by (simp add: rl release_items_logs) (simp add: release_logs_def)
qed

lemma distinct_map_eq:
  "distinct (map f xs) \<Longrightarrow> x \<in> set xs \<Longrightarrow> y \<in> set xs \<Longrightarrow> f x = f y \<Longrightarrow> x = y"
  by (simp add: distinct_map inj_on_def)

lemma expired_member:
  assumes "distinct (map c_id (carts d))" and c: "c \<in> set (carts d)"
  shows "(c_id c \<in> c_id ` set (expired_carts t d)) = (c_status c = Open \<and> c_expires_at c < t)"
proof
  assume "c_id c \<in> c_id ` set (expired_carts t d)"
  then obtain c' where c': "c' \<in> set (expired_carts t d)" and eq: "c_id c = c_id c'"
    by (rule imageE)
  from c' have m: "c' \<in> set (carts d)" and p: "c_status c' = Open \<and> c_expires_at c' < t"
    by (simp_all add: expired_carts_def)
  from distinct_map_eq[OF assms(1) c m eq] have "c = c'" .
  with p show "c_status c = Open \<and> c_expires_at c < t" by simp
next
  assume "c_status c = Open \<and> c_expires_at c < t"
  with c have "c \<in> set (expired_carts t d)" by (simp add: expired_carts_def)
  then show "c_id c \<in> c_id ` set (expired_carts t d)" by (rule imageI)
qed

lemma handleCron_carts:
  assumes "distinct (map c_id (carts d))"
  shows "carts (handleCron t d) =
     map (\<lambda>c. if c_status c = Open \<and> c_expires_at c < t then c\<lparr>c_status := Expired\<rparr> else c)
         (carts d)"
  unfolding handleCron_def sweep_carts_carts
proof (rule map_cong[OF refl])
  fix c assume "c \<in> set (carts d)"
  from expired_member[OF assms this, of t]
  show "(if c_id c \<in> c_id ` set (expired_carts t d) then c\<lparr>c_status := Expired\<rparr> else c) =
        (if c_status c = Open \<and> c_expires_at c < t then c\<lparr>c_status := Expired\<rparr> else c)"
    by simp
qed

lemma releaseReservedInventory_floor:
  "reserved_of (releaseReservedInventory t s acc d) key =
     map_option (\<lambda>r. floor_decrements r (map snd (filter (\<lambda>(sku, qty). (s, sku) = key) acc)))
       (reserved_of d key)"
proof (induction acc arbitrary: d)
  case Nil show ?case by (simp add: option.map_ident)
next
  case (Cons a acc)
  obtain k q where a: "a = (k, q)" by (cases a)
  show ?case
    by (cases "reserved_of d key") (auto simp: a Cons.IH release_reserved_of)
qed

lemma create_cart_row:
  "create_cart T newId st email d0 = (Inr crt, d1) \<Longrightarrow>
     c_status crt = Open \<and> c_expires_at crt = T + 30 * 60 * 1000 \<and> carts d1 = carts d0 @ [crt]"
  by (auto simp: create_cart_def Let_def split: option.splits if_splits)

section \<open>The expiry sweep\<close>

text \<open>
  Claim C6. In a store whose cart ids are distinct, the carts table after a sweep
  at time \<open>t\<close> is the table before it with exactly the carts that were open with
  \<open>expires_at < t\<close> set to expired, and every other cart row as it was; the cart
  items are unchanged. Every inventory row's \<open>reserved\<close> is what the floored
  decrements by the quantities of the selected carts' items, in order, make of
  it, and its \<open>on_hand\<close> is unchanged. A cart that is open with
  \<open>expires_at = T + 30 min\<close>, which is what cart creation at \<open>T\<close> inserts, is not
  selected and is still in the table unchanged after a sweep at \<open>T + 29 min\<close>,
  and is selected and expired by a sweep at \<open>T + 31 min\<close>. Within one iteration
  the handler releases before it updates the status; the theorem is about the
  store after the sweep.
\<close>

theorem sweep_expires_exactly_due_carts:
  assumes "distinct (map c_id (carts d))"
  shows "carts (handleCron t d) =
           map (\<lambda>c. if c_status c = Open \<and> c_expires_at c < t
                     then c\<lparr>c_status := Expired\<rparr> else c) (carts d) \<and>
         cart_items (handleCron t d) = cart_items d \<and>
         (\<forall>key. reserved_of (handleCron t d) key =
                   map_option (\<lambda>r. floor_decrements r (sweep_quantities t d key))
                     (reserved_of d key) \<and>
                on_hand_of (handleCron t d) key = on_hand_of d key) \<and>
         (\<forall>T. \<forall>c \<in> set (carts d). c_status c = Open \<and> c_expires_at c = T + 30 * 60 * 1000 \<longrightarrow>
                c \<notin> set (expired_carts (T + 29 * 60 * 1000) d) \<and>
                c \<in> set (carts (handleCron (T + 29 * 60 * 1000) d)) \<and>
                c \<in> set (expired_carts (T + 31 * 60 * 1000) d) \<and>
                c\<lparr>c_status := Expired\<rparr> \<in> set (carts (handleCron (T + 31 * 60 * 1000) d))) \<and>
         (\<forall>T newId st email d0 crt d1.
             create_cart T newId st email d0 = (Inr crt, d1) \<longrightarrow>
               c_status crt = Open \<and> c_expires_at crt = T + 30 * 60 * 1000 \<and>
               carts d1 = carts d0 @ [crt])"
proof -
  note cs = handleCron_carts[OF assms]
  have a: "cart_items (handleCron t d) = cart_items d"
    by (simp add: handleCron_def)
  have b: "\<forall>key. reserved_of (handleCron t d) key =
                   map_option (\<lambda>r. floor_decrements r (sweep_quantities t d key))
                     (reserved_of d key) \<and>
                on_hand_of (handleCron t d) key = on_hand_of d key"
    by (simp add: handleCron_def sweep_carts_reserved_of sweep_carts_on_hand_of
                  sweep_quantities_def)
  have c: "\<forall>T. \<forall>c \<in> set (carts d). c_status c = Open \<and> c_expires_at c = T + 30 * 60 * 1000 \<longrightarrow>
                c \<notin> set (expired_carts (T + 29 * 60 * 1000) d) \<and>
                c \<in> set (carts (handleCron (T + 29 * 60 * 1000) d)) \<and>
                c \<in> set (expired_carts (T + 31 * 60 * 1000) d) \<and>
                c\<lparr>c_status := Expired\<rparr> \<in> set (carts (handleCron (T + 31 * 60 * 1000) d))"
  proof (intro allI ballI impI)
    fix T c assume m: "c \<in> set (carts d)"
      and h: "c_status c = Open \<and> c_expires_at c = T + 30 * 60 * 1000"
    have 1: "c \<notin> set (expired_carts (T + 29 * 60 * 1000) d)"
      using h by (simp add: expired_carts_def)
    have 2: "c \<in> set (expired_carts (T + 31 * 60 * 1000) d)"
      using h m by (simp add: expired_carts_def)
    have 3: "c \<in> set (carts (handleCron (T + 29 * 60 * 1000) d))"
      unfolding handleCron_carts[OF assms] using m h by (force simp: image_iff)
    have 4: "c\<lparr>c_status := Expired\<rparr> \<in> set (carts (handleCron (T + 31 * 60 * 1000) d))"
      unfolding handleCron_carts[OF assms] using m h by (force simp: image_iff)
    from 1 2 3 4 show "c \<notin> set (expired_carts (T + 29 * 60 * 1000) d) \<and>
                c \<in> set (carts (handleCron (T + 29 * 60 * 1000) d)) \<and>
                c \<in> set (expired_carts (T + 31 * 60 * 1000) d) \<and>
                c\<lparr>c_status := Expired\<rparr> \<in> set (carts (handleCron (T + 31 * 60 * 1000) d))"
      by simp
  qed
  from cs a b c create_cart_row show ?thesis by blast
qed

theorem sweep_expires_exactly_due_carts_witness:
  "carts (handleCron 1860000 sweep_ex) = [cart_ex\<lparr>c_status := Expired\<rparr>, cart_co] \<and>
   reserved_of (handleCron 1860000 sweep_ex) (''s1'', ''A'') = Some 1 \<and>
   carts (handleCron 1740000 sweep_ex) = [cart_ex, cart_co] \<and>
   reserved_of (handleCron 1740000 sweep_ex) (''s1'', ''A'') = Some 6"
proof -
  have dist: "distinct (map c_id (carts sweep_ex))"
    by (simp add: sweep_ex_defs)
  have q1: "sweep_quantities 1860000 sweep_ex (''s1'', ''A'') = [5]"
    by (simp add: sweep_quantities_def expired_carts_def items_quantities_def
                  select_cart_items_def sweep_ex_defs)
  have q2: "sweep_quantities 1740000 sweep_ex (''s1'', ''A'') = []"
    by (simp add: sweep_quantities_def expired_carts_def items_quantities_def
                  select_cart_items_def sweep_ex_defs)
  have r: "reserved_of sweep_ex (''s1'', ''A'') = Some 6"
    by (simp add: reserved_of_def sweep_ex_defs)
  have c: "carts sweep_ex = [cart_ex, cart_co]" by (simp add: sweep_ex_defs)
  note a = sweep_expires_exactly_due_carts[OF dist, of 1860000]
  note b = sweep_expires_exactly_due_carts[OF dist, of 1740000]
  from a have "carts (handleCron 1860000 sweep_ex) = [cart_ex\<lparr>c_status := Expired\<rparr>, cart_co] \<and>
     reserved_of (handleCron 1860000 sweep_ex) (''s1'', ''A'') = Some 1"
    by (simp add: q1 r c) (simp add: cart_ex_def cart_co_def)
  moreover from b have "carts (handleCron 1740000 sweep_ex) = [cart_ex, cart_co] \<and>
     reserved_of (handleCron 1740000 sweep_ex) (''s1'', ''A'') = Some 6"
    by (simp add: q2 r c) (simp add: cart_ex_def cart_co_def)
  ultimately show ?thesis by simp
qed

section \<open>Releases and their log rows\<close>

text \<open>
  Claim C8, as the code has it. Both releases subtract with a floor at zero: after
  the rollback closure of checkout and after the sweep, a row's \<open>reserved\<close> is
  the floored decrements of what it was by the released quantities. The sweep
  appends to the inventory log, for every item of every selected cart, a row
  with the cart's store, the item's sku, delta \<open>-qty\<close> and reason release.
\<close>

theorem release_floors_and_sweep_logs:
  "reserved_of (releaseReservedInventory t storeId reservedItems d) key =
     map_option (\<lambda>r. floor_decrements r
                   (map snd (filter (\<lambda>(sku, qty). (storeId, sku) = key) reservedItems)))
       (reserved_of d key) \<and>
   reserved_of (handleCron t d) key =
     map_option (\<lambda>r. floor_decrements r (sweep_quantities t d key)) (reserved_of d key) \<and>
   inventory_logs (handleCron t d) =
     inventory_logs d @ concat (map (release_logs d) (expired_carts t d))"
  by (simp add: releaseReservedInventory_floor handleCron_def sweep_carts_reserved_of
                sweep_quantities_def sweep_carts_logs)

text \<open>
  Claim C8 as stated also gives the rollback of a failed checkout a log row. In
  the example the checkout reserves 5 of A, fails on B and releases A, and the
  inventory log is still empty.
\<close>

theorem rollback_writes_no_log_counterexample:
  "fst (reserve_loop 1000 ''s1'' [item_A] [] checkout_ex) = Inr [(''A'', 5)] \<and>
   fst (checkout api_ok 1000 store_ex ''c1'' body_ex checkout_ex) =
     Inl (InsufficientInventory ''B'') \<and>
   inventory checkout_ex (''s1'', ''A'') = Some \<lparr>on_hand = 5, reserved = 0, updated_at = 0\<rparr> \<and>
   inventory (snd (checkout api_ok 1000 store_ex ''c1'' body_ex checkout_ex)) (''s1'', ''A'') =
     Some \<lparr>on_hand = 5, reserved = 0, updated_at = 1000\<rparr> \<and>
   inventory_logs (snd (checkout api_ok 1000 store_ex ''c1'' body_ex checkout_ex)) = []"
  by (simp add: checkout_def truthy_def find_cart_def select_cart_items_def
        checkout_discount_def reserve_def release_def subtotal_of_def ex_defs)

section \<open>What order materialization leaves alone\<close>

lemma sell_frame: "sell t s k q d = d\<lparr>inventory := inventory (sell t s k q d)\<rparr>"
  by (simp add: sell_def split: option.splits)

lemma sell_items_fields:
  "events (sell_items t s oid items d) = events d"
  "stores (sell_items t s oid items d) = stores d"
  "orders (sell_items t s oid items d) = orders d"
  "discounts (sell_items t s oid items d) = discounts d"
  "discount_usage (sell_items t s oid items d) = discount_usage d"
  "carts (sell_items t s oid items d) = carts d"
  "cart_items (sell_items t s oid items d) = cart_items d"
proof (induction items arbitrary: d)
  case Nil
  { case 1 show ?case by simp next
    case 2 show ?case by simp next
    case 3 show ?case by simp next
    case 4 show ?case by simp next
    case 5 show ?case by simp next
    case 6 show ?case by simp next
    case 7 show ?case by simp }
next
  case (Cons i items)
  have s: "\<And>d'. sell t s (ci_sku i) (ci_qty i) d' =
             d'\<lparr>inventory := inventory (sell t s (ci_sku i) (ci_qty i) d')\<rparr>"
    by (rule sell_frame)
  { case 1 show ?case by (simp add: Cons.IH insert_inventory_log_def) (subst s, simp) next
    case 2 show ?case by (simp add: Cons.IH insert_inventory_log_def) (subst s, simp) next
    case 3 show ?case by (simp add: Cons.IH insert_inventory_log_def) (subst s, simp) next
    case 4 show ?case by (simp add: Cons.IH insert_inventory_log_def) (subst s, simp) next
    case 5 show ?case by (simp add: Cons.IH insert_inventory_log_def) (subst s, simp) next
    case 6 show ?case by (simp add: Cons.IH insert_inventory_log_def) (subst s, simp) next
    case 7 show ?case by (simp add: Cons.IH insert_inventory_log_def) (subst s, simp) }
qed

lemma sell_items_order_items:
  "order_items (sell_items t s oid items d) =
     order_items d @
       map (\<lambda>item. \<lparr>oi_order_id = oid, oi_sku = ci_sku item, oi_title = ci_title item,
                     oi_qty = ci_qty item, oi_unit_price_cents = ci_unit_price_cents item\<rparr>) items"
proof (induction items arbitrary: d)
  case Nil show ?case by simp
next
  case (Cons i items)
  have s: "\<And>d'. order_items (sell t s (ci_sku i) (ci_qty i) d') = order_items d'"
    by (simp add: sell_def split: option.splits)
  show ?case by (simp add: Cons.IH insert_inventory_log_def s)
qed

lemma increment_usage_fields:
  "events (increment_usage t i d) = events d"
  "stores (increment_usage t i d) = stores d"
  "orders (increment_usage t i d) = orders d"
  "discount_usage (increment_usage t i d) = discount_usage d"
  "carts (increment_usage t i d) = carts d"
  "cart_items (increment_usage t i d) = cart_items d"
  "order_items (increment_usage t i d) = order_items d"
  by (simp_all add: increment_usage_def)

lemma webhook_discount_cases:
  "snd (webhook_discount t st ev crt d) = d \<or>
   (\<exists>i. snd (webhook_discount t st ev crt d) = increment_usage t i d)"
  by (auto simp: webhook_discount_def Let_def split: option.splits)

lemma webhook_discount_fields:
  "events (snd (webhook_discount t st ev crt d)) = events d"
  "stores (snd (webhook_discount t st ev crt d)) = stores d"
  "orders (snd (webhook_discount t st ev crt d)) = orders d"
  "discount_usage (snd (webhook_discount t st ev crt d)) = discount_usage d"
  "carts (snd (webhook_discount t st ev crt d)) = carts d"
  "cart_items (snd (webhook_discount t st ev crt d)) = cart_items d"
  "order_items (snd (webhook_discount t st ev crt d)) = order_items d"
  using webhook_discount_cases[of t st ev crt d]
  by (auto simp: increment_usage_fields)

lemma materialize_order_fields:
  "events (materialize_order t oid st ev cid crt d) = events d"
  "stores (materialize_order t oid st ev cid crt d) = stores d"
  "carts (materialize_order t oid st ev cid crt d) = carts d"
  "cart_items (materialize_order t oid st ev cid crt d) = cart_items d"
  by (simp_all add: materialize_order_def Let_def split_beta sell_items_fields
        webhook_discount_fields)

lemma materialize_order_orders:
  "\<exists>row. orders (materialize_order t oid st ev cid crt d) = orders d @ [row] \<and> o_id row = oid \<and>
      o_discount_amount_cents row = fst (snd (snd (fst (webhook_discount t st ev crt d)))) \<and>
      o_discount_id row = fst (snd (fst (webhook_discount t st ev crt d))) \<and>
      o_discount_code row = fst (fst (webhook_discount t st ev crt d))"
  by (simp add: materialize_order_def Let_def split_beta sell_items_fields
        webhook_discount_fields)

lemma materialize_order_order_items:
  "order_items (materialize_order t oid st ev cid crt d) =
     order_items d @
       map (\<lambda>item. \<lparr>oi_order_id = oid, oi_sku = ci_sku item, oi_title = ci_title item,
                     oi_qty = ci_qty item, oi_unit_price_cents = ci_unit_price_cents item\<rparr>)
           (select_cart_items d cid)"
  by (simp add: materialize_order_def Let_def split_beta sell_items_order_items
        webhook_discount_fields)

lemma process_event_fields:
  "events (process_event t oid st ev d) = events d"
  "stores (process_event t oid st ev d) = stores d"
  by (simp_all add: process_event_def materialize_order_fields split: option.splits)

lemma process_event_orders:
  "orders (process_event t oid st ev d) = orders d \<or>
   (\<exists>row. orders (process_event t oid st ev d) = orders d @ [row] \<and> o_id row = oid)"
  using materialize_order_orders
  by (auto simp: process_event_def split: option.splits) blast+

lemma verify_request_stores:
  "stores d' = stores d \<Longrightarrow> verify_request env req d' = verify_request env req d"
  unfolding verify_request_def by (simp only:)

lemma event_exists_insert:
  "event_exists (insert_event st ev d) (ev_id ev)"
  by (auto simp: event_exists_def insert_event_def find_None_iff)


lemma find_discount_increment_usage:
  "find_discount (increment_usage t i d) x s =
     map_option (\<lambda>x. if d_id x = i \<and>
                      (case d_usage_limit x of None \<Rightarrow> True | Some l \<Rightarrow> d_usage_count x < l)
                   then x\<lparr>d_usage_count := d_usage_count x + 1, d_updated_at := t\<rparr>
                   else x) (find_discount d x s)"
  unfolding find_discount_def increment_usage_def
  by (simp add: find_map_preserve)

lemma find_discount_cong:
  "discounts d' = discounts d \<Longrightarrow> find_discount d' x s = find_discount d x s"
  by (simp add: find_discount_def)

lemma materialize_order_discounts:
  "discounts (materialize_order t oid st ev cid crt d) =
     discounts (snd (webhook_discount t st ev crt d))"
  by (simp add: materialize_order_def Let_def split_beta sell_items_fields)

lemma materialize_order_discount_usage:
  "discount_usage (materialize_order t oid st ev cid crt d) =
     discount_usage d @
       (if snd (snd (snd (fst (webhook_discount t st ev crt d)))) \<and>
           truthy (fst (snd (fst (webhook_discount t st ev crt d))))
        then [\<lparr>du_discount_id =
                 (case fst (snd (fst (webhook_discount t st ev crt d))) of Some i \<Rightarrow> i | None \<Rightarrow> []),
               du_order_id = oid,
               du_customer_email = toLowerCase (c_customer_email crt),
               du_discount_amount_cents = fst (snd (snd (fst (webhook_discount t st ev crt d))))\<rparr>]
        else [])"
  by (simp add: materialize_order_def Let_def split_beta sell_items_fields
        webhook_discount_fields)

lemma webhook_discount_found:
  assumes "ev_discount_id ev = Some metaId" "metaId \<noteq> []"
      and "find_discount d metaId (st_id st) = Some disc"
  shows "webhook_discount t st ev crt d =
     ((Some (d_code disc), Some (d_id disc),
       (case c_discount_amount_cents crt of None \<Rightarrow> 0 | Some a \<Rightarrow> a),
       discount_is_valid t disc \<and> 0 < (case c_discount_amount_cents crt of None \<Rightarrow> 0 | Some a \<Rightarrow> a)),
      if discount_is_valid t disc \<and> 0 < (case c_discount_amount_cents crt of None \<Rightarrow> 0 | Some a \<Rightarrow> a)
      then increment_usage t (d_id disc) d else d)"
  using assms by (simp add: webhook_discount_def Let_def)

section \<open>Webhook deduplication\<close>

text \<open>
  Claim C4. Take a delivery whose preamble yields a store and a verified event
  whose id has no event row yet, and process it. The handler answers success and
  the events table has grown by exactly the row of this event id, whatever the
  event's type and whether or not its cart is known. Processing the same
  delivery again on the resulting store, at any time and with any fresh order
  id, answers success and leaves the whole store as it is. The first processing
  adds at most one order; for a checkout completion with a known cart it adds
  exactly one order and one order item per cart item, so two deliveries leave
  exactly one order and one set of order items.
\<close>

theorem webhook_idempotent:
  assumes v: "verify_request env req d = Inr (st, event)"
      and first: "\<not> event_exists d (ev_id event)"
      and run: "stripe_webhook env t orderId req d = (res, d1)"
  shows "res = Inr () \<and>
         events d1 = events d @
           [\<lparr>e_store_id = st_id st, e_stripe_event_id = ev_id event, e_type = ev_type event,
             e_payload = ev_payload event\<rparr>] \<and>
         stripe_webhook env t' orderId' req d1 = (Inr (), d1) \<and>
         (orders d1 = orders d \<or> (\<exists>row. orders d1 = orders d @ [row] \<and> o_id row = orderId)) \<and>
         (\<forall>cartId crt.
             ev_type event = ''checkout.session.completed'' \<and> ev_cart_id event = Some cartId \<and>
             cartId \<noteq> [] \<and> find (\<lambda>c. c_id c = cartId) (carts d) = Some crt \<longrightarrow>
             (\<exists>row. orders d1 = orders d @ [row] \<and> o_id row = orderId) \<and>
             order_items d1 = order_items d @
               map (\<lambda>item. \<lparr>oi_order_id = orderId, oi_sku = ci_sku item,
                             oi_title = ci_title item, oi_qty = ci_qty item,
                             oi_unit_price_cents = ci_unit_price_cents item\<rparr>)
                   (select_cart_items d cartId))"
proof -
  let ?p = "process_event t orderId st event d"
  from v first run have res: "res = Inr ()" and d1: "d1 = insert_event st event ?p"
    by (simp_all add: stripe_webhook_def)
  have ev: "events d1 = events d @
           [\<lparr>e_store_id = st_id st, e_stripe_event_id = ev_id event, e_type = ev_type event,
             e_payload = ev_payload event\<rparr>]"
    by (simp add: d1 insert_event_def process_event_fields)
  have st: "stores d1 = stores d"
    by (simp add: d1 insert_event_def process_event_fields)
  have v1: "verify_request env req d1 = Inr (st, event)"
    using verify_request_stores[OF st] v by simp
  have ex: "event_exists d1 (ev_id event)"
    unfolding d1 by (rule event_exists_insert)
  have again: "stripe_webhook env t' orderId' req d1 = (Inr (), d1)"
    by (simp add: stripe_webhook_def v1 ex)
  have od: "orders d1 = orders ?p" "order_items d1 = order_items ?p"
    by (simp_all add: d1 insert_event_def)
  have o1: "orders d1 = orders d \<or> (\<exists>row. orders d1 = orders d @ [row] \<and> o_id row = orderId)"
    unfolding od by (rule process_event_orders)
  have o2: "\<forall>cartId crt.
             ev_type event = ''checkout.session.completed'' \<and> ev_cart_id event = Some cartId \<and>
             cartId \<noteq> [] \<and> find (\<lambda>c. c_id c = cartId) (carts d) = Some crt \<longrightarrow>
             (\<exists>row. orders d1 = orders d @ [row] \<and> o_id row = orderId) \<and>
             order_items d1 = order_items d @
               map (\<lambda>item. \<lparr>oi_order_id = orderId, oi_sku = ci_sku item,
                             oi_title = ci_title item, oi_qty = ci_qty item,
                             oi_unit_price_cents = ci_unit_price_cents item\<rparr>)
                   (select_cart_items d cartId)"
  proof (intro allI impI, elim conjE)
    fix cartId crt
    assume "ev_type event = ''checkout.session.completed''" "ev_cart_id event = Some cartId"
      "cartId \<noteq> []" "find (\<lambda>c. c_id c = cartId) (carts d) = Some crt"
    then have p: "?p = materialize_order t orderId st event cartId crt d"
      by (simp add: process_event_def)
    from materialize_order_orders[of t orderId st event cartId crt d]
    have "\<exists>row. orders ?p = orders d @ [row] \<and> o_id row = orderId"
      unfolding p by blast
    then show "(\<exists>row. orders d1 = orders d @ [row] \<and> o_id row = orderId) \<and>
             order_items d1 = order_items d @
               map (\<lambda>item. \<lparr>oi_order_id = orderId, oi_sku = ci_sku item,
                             oi_title = ci_title item, oi_qty = ci_qty item,
                             oi_unit_price_cents = ci_unit_price_cents item\<rparr>)
                   (select_cart_items d cartId)"
      unfolding od by (simp add: p materialize_order_order_items)
  qed
  from res ev again o1 o2 show ?thesis by blast
qed

theorem webhook_idempotent_witness:
  "fst (stripe_webhook (env_of event_c1) 2000000 ''o1'' request_ex oversell_ex) = Inr () \<and>
   map e_stripe_event_id
     (events (snd (stripe_webhook (env_of event_c1) 2000000 ''o1'' request_ex oversell_ex))) =
     [''evt_1''] \<and>
   stripe_webhook (env_of event_c1) 2000005 ''o2'' request_ex
     (snd (stripe_webhook (env_of event_c1) 2000000 ''o1'' request_ex oversell_ex)) =
     (Inr (), snd (stripe_webhook (env_of event_c1) 2000000 ''o1'' request_ex oversell_ex)) \<and>
   map o_id (orders (snd (stripe_webhook (env_of event_c1) 2000000 ''o1'' request_ex oversell_ex))) =
     [''o1'']"
proof -
  let ?run = "stripe_webhook (env_of event_c1) 2000000 ''o1'' request_ex oversell_ex"
  have v: "verify_request (env_of event_c1) request_ex oversell_ex = Inr (store_ex, event_c1)"
    by (simp add: verify_request_def truthy_def oversell_defs)
  have first: "\<not> event_exists oversell_ex (ev_id event_c1)"
    by (simp add: event_exists_def oversell_defs)
  have run: "?run = (fst ?run, snd ?run)" by simp
  note th = webhook_idempotent[OF v first run, of 2000005 "''o2''"]
  have cart: "ev_type event_c1 = ''checkout.session.completed'' \<and>
              ev_cart_id event_c1 = Some ''c1'' \<and> ''c1'' \<noteq> [] \<and>
              find (\<lambda>c. c_id c = ''c1'') (carts oversell_ex) = Some cart_ex"
    by (simp add: oversell_defs)
  have facts: "events oversell_ex = []" "orders oversell_ex = []" "ev_id event_c1 = ''evt_1''"
    by (simp_all add: oversell_defs)
  from th cart have "\<exists>row. orders (snd ?run) = orders oversell_ex @ [row] \<and> o_id row = ''o1''"
    by blast
  then have o: "map o_id (orders (snd ?run)) = [''o1'']"
    by (auto simp: facts)
  from th have "fst ?run = Inr ()"
    and "map e_stripe_event_id (events (snd ?run)) = [''evt_1'']"
    and "stripe_webhook (env_of event_c1) 2000005 ''o2'' request_ex (snd ?run) = (Inr (), snd ?run)"
    by (simp_all add: facts)
  with o show ?thesis by simp
qed

section \<open>Discount accounting during order materialization\<close>

text \<open>
  Claim C5, as the code has it. Take the first processing of a checkout
  completion whose cart is known and whose metadata names a discount whose row
  is in the store. The order it creates records that discount and the discount amount
  stored on the cart at checkout (zero where the cart stores none). The
  discount's \<open>usage_count\<close> grows by one exactly when the discount is active and
  within its window at processing time, the recorded amount is positive, and
  \<open>usage_limit\<close> is null or above \<open>usage_count\<close>; otherwise the discount row
  is unchanged, so a count that was within a limit stays within it. A usage row
  with the lower-cased customer email is appended exactly when the discount is
  active and within its window and the recorded amount is positive, whether or
  not the conditional update counted it.
\<close>

theorem webhook_discount_accounting:
  assumes v: "verify_request env req d = Inr (st, event)"
      and first: "\<not> event_exists d (ev_id event)"
      and ty: "ev_type event = ''checkout.session.completed''"
      and cart: "ev_cart_id event = Some cartId" "cartId \<noteq> []"
                "find (\<lambda>c. c_id c = cartId) (carts d) = Some crt"
      and disc: "ev_discount_id event = Some metaId" "metaId \<noteq> []"
                "find_discount d metaId (st_id st) = Some disc"
      and run: "stripe_webhook env t orderId req d = (res, d1)"
  shows "(\<exists>row. orders d1 = orders d @ [row] \<and> o_id row = orderId \<and>
            o_discount_id row = Some (d_id disc) \<and>
            o_discount_amount_cents row =
              (case c_discount_amount_cents crt of None \<Rightarrow> 0 | Some a \<Rightarrow> a)) \<and>
         find_discount d1 metaId (st_id st) =
           Some (if discount_is_valid t disc \<and>
                    0 < (case c_discount_amount_cents crt of None \<Rightarrow> 0 | Some a \<Rightarrow> a) \<and>
                    (case d_usage_limit disc of None \<Rightarrow> True | Some l \<Rightarrow> d_usage_count disc < l)
                 then disc\<lparr>d_usage_count := d_usage_count disc + 1, d_updated_at := t\<rparr>
                 else disc) \<and>
         (\<forall>l. d_usage_limit disc = Some l \<and> d_usage_count disc \<le> l \<longrightarrow>
              (\<exists>x. find_discount d1 metaId (st_id st) = Some x \<and> d_usage_count x \<le> l)) \<and>
         discount_usage d1 =
           discount_usage d @
             (if discount_is_valid t disc \<and>
                 0 < (case c_discount_amount_cents crt of None \<Rightarrow> 0 | Some a \<Rightarrow> a)
              then [\<lparr>du_discount_id = d_id disc, du_order_id = orderId,
                     du_customer_email = toLowerCase (c_customer_email crt),
                     du_discount_amount_cents =
                       (case c_discount_amount_cents crt of None \<Rightarrow> 0 | Some a \<Rightarrow> a)\<rparr>]
              else [])"
    (is "?A \<and> ?B \<and> ?C \<and> ?D")
proof -
  let ?charged = "case c_discount_amount_cents crt of None \<Rightarrow> 0 | Some a \<Rightarrow> a"
  let ?m = "materialize_order t orderId st event cartId crt d"
  from v first run ty cart have d1: "d1 = insert_event st event ?m"
    by (simp add: stripe_webhook_def process_event_def)
  note wd = webhook_discount_found[OF disc, of t crt]
  have idd: "d_id disc = metaId"
    using disc(3) by (auto simp: find_discount_def dest: find_some_pred)
  have A: ?A
    using materialize_order_orders[of t orderId st event cartId crt d]
    by (simp add: d1 insert_event_def wd) blast
  have fd: "find_discount d1 metaId (st_id st) =
      find_discount (snd (webhook_discount t st event crt d)) metaId (st_id st)"
    by (rule find_discount_cong) (simp add: d1 insert_event_def materialize_order_discounts)
  have B: ?B
    unfolding fd wd by (simp add: find_discount_increment_usage disc(3) idd)
  have C: ?C
    unfolding B by auto
  have D: ?D
    using materialize_order_discount_usage[of t orderId st event cartId crt d]
    by (simp add: d1 insert_event_def wd truthy_def idd disc(2))
  from A B C D show ?thesis by blast
qed

theorem webhook_discount_accounting_witness:
  "map o_discount_amount_cents (orders limit_1) = [500] \<and>
   find_discount limit_1 ''d1'' ''s1'' =
     Some (discount_ex\<lparr>d_usage_count := 1, d_updated_at := 2000000\<rparr>) \<and>
   discount_usage limit_1 =
     [\<lparr>du_discount_id = ''d1'', du_order_id = ''o1'', du_customer_email = ''ann@x.io'',
       du_discount_amount_cents = 500\<rparr>]"
proof -
  let ?run = "stripe_webhook (env_of event_d1) 2000000 ''o1'' request_ex limit_ex"
  have v: "verify_request (env_of event_d1) request_ex limit_ex = Inr (store_ex, event_d1)"
    by (simp add: verify_request_def truthy_def limit_defs)
  have first: "\<not> event_exists limit_ex (ev_id event_d1)"
    by (simp add: event_exists_def limit_defs)
  have ty: "ev_type event_d1 = ''checkout.session.completed''"
    by (simp add: limit_defs)
  have cart: "ev_cart_id event_d1 = Some ''c1''" "''c1'' \<noteq> []"
             "find (\<lambda>c. c_id c = ''c1'') (carts limit_ex) = Some cart_d1"
    by (simp_all add: limit_defs)
  have disc: "ev_discount_id event_d1 = Some ''d1''" "''d1'' \<noteq> []"
             "find_discount limit_ex ''d1'' (st_id store_ex) = Some discount_ex"
    by (simp_all add: find_discount_def limit_defs)
  have run: "?run = (fst ?run, limit_1)"
    by (simp add: limit_1_def)
  note th = webhook_discount_accounting[OF v first ty cart disc run]
  have valid: "discount_is_valid 2000000 discount_ex"
    by (simp add: discount_is_valid_def discount_ex_def)
  have em: "toLowerCase (c_customer_email cart_d1) = ''ann@x.io''"
    by (simp add: toLowerCase_def lower_char_def cart_d1_def cart_ex_def)
  have facts: "c_discount_amount_cents cart_d1 = Some 500" "d_usage_limit discount_ex = Some 1"
    "d_usage_count discount_ex = 0" "d_id discount_ex = ''d1''" "st_id store_ex = ''s1''"
    "orders limit_ex = []" "discount_usage limit_ex = []"
    by (simp_all add: limit_defs)
  from th show ?thesis
    by (simp add: valid em facts) auto
qed

text \<open>
  Claim C5 as stated appends the usage row exactly when the usage was counted,
  and has the order always record the charged amount. In the first example the
  discount has \<open>usage_limit = 1\<close> and two carts were charged 500 with it. The
  first event counts it. The second event leaves \<open>usage_count\<close> at 1, its order
  records 500, and a second usage row is appended all the same. In the second
  example the discount row was deleted after checkout: the cart still stores the
  500 it was charged, and the order records no discount and amount 0.
\<close>

theorem usage_row_without_count_counterexample:
  "map d_usage_count (discounts limit_ex) = [0] \<and>
   map d_usage_count (discounts limit_1) = [1] \<and>
   map du_order_id (discount_usage limit_1) = [''o1''] \<and>
   fst (stripe_webhook (env_of event_d2) 2000001 ''o2'' request_ex limit_1) = Inr () \<and>
   map d_usage_count (discounts limit_2) = [1] \<and>
   map du_order_id (discount_usage limit_2) = [''o1'', ''o2''] \<and>
   map o_discount_amount_cents (orders limit_2) = [500, 500] \<and>
   map c_discount_amount_cents (carts gone_ex) = [Some 500, Some 500] \<and>
   fst (stripe_webhook (env_of event_d1) 2000000 ''o1'' request_ex gone_ex) = Inr () \<and>
   map o_discount_amount_cents (orders gone_1) = [0] \<and>
   map o_discount_id (orders gone_1) = [None]"
  by (simp add: limit_2_def limit_1_def gone_1_def gone_ex_def run_defs limit_defs)

section \<open>The ledger invariant\<close>

text \<open>
  On a row with \<open>0 <= reserved <= on_hand\<close> and a non-negative quantity, the
  reservation and the release keep the invariant. The sale keeps
  \<open>reserved <= on_hand\<close>, and keeps \<open>reserved\<close> non-negative only when at least the
  sold quantity was reserved.
\<close>

lemma ledger_reserve_release_keep_invariant:
  assumes "inventory d (s, k) = Some r" "0 \<le> reserved r" "reserved r \<le> on_hand r" "0 \<le> q"
  shows "\<forall>r'. inventory (snd (reserve t s k q d)) (s, k) = Some r' \<longrightarrow>
               0 \<le> reserved r' \<and> reserved r' \<le> on_hand r'"
    and "\<forall>r'. inventory (release t s k q d) (s, k) = Some r' \<longrightarrow>
               0 \<le> reserved r' \<and> reserved r' \<le> on_hand r'"
    and "\<forall>r'. inventory (sell t s k q d) (s, k) = Some r' \<longrightarrow>
               reserved r' \<le> on_hand r' \<and> (0 \<le> reserved r' \<longleftrightarrow> q \<le> reserved r)"
  using assms by (auto simp: reserve_def release_def sell_def)

text \<open>
  Claim C1 at a failing input. Two open carts hold 2 of A each; 5 are on hand and
  none reserved. Cart c1 checks out and reserves 2. The sweep then expires cart
  c2, which never reserved, and its release takes the 2 that c1 holds. The
  payment of c1 completes, the sale subtracts 2 from both counters, and the row
  ends with \<open>reserved = -2\<close>.
\<close>

theorem sale_after_sweep_drives_reserved_negative:
  "inventory oversell_ex (''s1'', ''A'') = Some \<lparr>on_hand = 5, reserved = 0, updated_at = 0\<rparr> \<and>
   fst (checkout api_ok 1000 store_ex ''c1'' body_ex oversell_ex) =
     Inr \<lparr>checkout_url = Some ''https://pay'', stripe_checkout_session_id = ''cs_1''\<rparr> \<and>
   inventory oversell_1 (''s1'', ''A'') = Some \<lparr>on_hand = 5, reserved = 2, updated_at = 1000\<rparr> \<and>
   map c_status (carts oversell_1) = [CheckedOut, Open] \<and>
   inventory oversell_2 (''s1'', ''A'') = Some \<lparr>on_hand = 5, reserved = 0, updated_at = 1900000\<rparr> \<and>
   map c_status (carts oversell_2) = [CheckedOut, Expired] \<and>
   fst (stripe_webhook (env_of event_c1) 2000000 ''o1'' request_ex oversell_2) = Inr () \<and>
   inventory oversell_3 (''s1'', ''A'') =
     Some \<lparr>on_hand = 3, reserved = - 2, updated_at = 2000000\<rparr>"
proof -
  have o1: "oversell_1 = oversell_ex\<lparr>
      inventory := [(''s1'', ''A'') \<mapsto> \<lparr>on_hand = 5, reserved = 2, updated_at = 1000\<rparr>],
      carts := [cart_ex\<lparr>c_status := CheckedOut, c_stripe_checkout_session_id := Some ''cs_1'',
                         c_discount_amount_cents := Some 0\<rparr>, cart_c2]\<rparr>"
    by (simp add: oversell_1_def run_defs oversell_defs)
  have o2: "oversell_2 = oversell_ex\<lparr>
      inventory := [(''s1'', ''A'') \<mapsto> \<lparr>on_hand = 5, reserved = 0, updated_at = 1900000\<rparr>],
      inventory_logs := [\<lparr>il_store_id = ''s1'', il_sku = ''A'', il_delta = - 2,
                          il_reason = ''release''\<rparr>],
      carts := [cart_ex\<lparr>c_status := CheckedOut, c_stripe_checkout_session_id := Some ''cs_1'',
                         c_discount_amount_cents := Some 0\<rparr>, cart_c2\<lparr>c_status := Expired\<rparr>]\<rparr>"
    unfolding oversell_2_def o1 by (simp add: run_defs oversell_defs)
  have a: "inventory oversell_ex (''s1'', ''A'') = Some \<lparr>on_hand = 5, reserved = 0, updated_at = 0\<rparr>"
    by (simp add: oversell_defs)
  have b: "fst (checkout api_ok 1000 store_ex ''c1'' body_ex oversell_ex) =
     Inr \<lparr>checkout_url = Some ''https://pay'', stripe_checkout_session_id = ''cs_1''\<rparr>"
    by (simp add: run_defs oversell_defs)
  have c: "inventory oversell_1 (''s1'', ''A'') = Some \<lparr>on_hand = 5, reserved = 2, updated_at = 1000\<rparr>"
      "map c_status (carts oversell_1) = [CheckedOut, Open]"
    unfolding o1 by (simp_all add: oversell_defs)
  have d: "inventory oversell_2 (''s1'', ''A'') = Some \<lparr>on_hand = 5, reserved = 0, updated_at = 1900000\<rparr>"
      "map c_status (carts oversell_2) = [CheckedOut, Expired]"
    unfolding o2 by (simp_all add: oversell_defs)
  have e: "fst (stripe_webhook (env_of event_c1) 2000000 ''o1'' request_ex oversell_2) = Inr ()"
    unfolding o2 by (simp add: run_defs oversell_defs)
  have f: "inventory oversell_3 (''s1'', ''A'') =
     Some \<lparr>on_hand = 3, reserved = - 2, updated_at = 2000000\<rparr>"
    unfolding oversell_3_def o2 by (simp add: run_defs oversell_defs)
  from a b c d e f show ?thesis by simp
qed

section \<open>Checkout and its rollback\<close>













section \<open>Discount calculation\<close>

text \<open>
  Claim C7, on the function as the spec describes it. A percentage discount is
  \<open>subtotal * value div 100\<close>, which is the floor of the exact quotient, capped by
  \<open>max_discount_cents\<close> when set; a fixed amount is \<open>min value subtotal\<close> and so
  never exceeds the subtotal. With non-negative amounts a zero subtotal or a
  zero value gives zero. The three values of the spec hold: 15 percent of 999 is
  149, a fixed 5000 on 2000 is 2000, and 50 percent of 10000 capped at 1000 is
  1000.
\<close>

theorem calculateDiscount_spec:
  "(d_type disc = Percentage \<longrightarrow>
      calculateDiscount disc subtotal =
        (case d_max_discount_cents disc of
           None \<Rightarrow> (subtotal * d_value disc) div 100
         | Some cap \<Rightarrow> min ((subtotal * d_value disc) div 100) cap) \<and>
      (d_max_discount_cents disc = None \<longrightarrow>
         100 * calculateDiscount disc subtotal \<le> subtotal * d_value disc \<and>
         subtotal * d_value disc < 100 * (calculateDiscount disc subtotal + 1)) \<and>
      (\<forall>cap. d_max_discount_cents disc = Some cap \<longrightarrow> calculateDiscount disc subtotal \<le> cap)) \<and>
   (d_type disc = FixedAmount \<longrightarrow>
      calculateDiscount disc subtotal = min (d_value disc) subtotal \<and>
      calculateDiscount disc subtotal \<le> subtotal) \<and>
   (0 \<le> d_value disc \<and> (\<forall>cap. d_max_discount_cents disc = Some cap \<longrightarrow> 0 \<le> cap) \<longrightarrow>
      calculateDiscount disc 0 = 0) \<and>
   (d_value disc = 0 \<and> 0 \<le> subtotal \<and> (\<forall>cap. d_max_discount_cents disc = Some cap \<longrightarrow> 0 \<le> cap) \<longrightarrow>
      calculateDiscount disc subtotal = 0) \<and>
   calculateDiscount (baseDiscount\<lparr>d_type := Percentage, d_value := 15\<rparr>) 999 = 149 \<and>
   calculateDiscount (baseDiscount\<lparr>d_type := FixedAmount, d_value := 5000\<rparr>) 2000 = 2000 \<and>
   calculateDiscount
     (baseDiscount\<lparr>d_type := Percentage, d_value := 50, d_max_discount_cents := Some 1000\<rparr>)
     10000 = 1000"
proof -
  have pct: "d_type disc = Percentage \<longrightarrow>
      calculateDiscount disc subtotal =
        (case d_max_discount_cents disc of
           None \<Rightarrow> (subtotal * d_value disc) div 100
         | Some cap \<Rightarrow> min ((subtotal * d_value disc) div 100) cap)"
    by (simp add: calculateDiscount_def Let_def)
  have floor: "d_type disc = Percentage \<longrightarrow> d_max_discount_cents disc = None \<longrightarrow>
         100 * calculateDiscount disc subtotal \<le> subtotal * d_value disc \<and>
         subtotal * d_value disc < 100 * (calculateDiscount disc subtotal + 1)"
  proof (intro impI)
    assume "d_type disc = Percentage" "d_max_discount_cents disc = None"
    then have c: "calculateDiscount disc subtotal = (subtotal * d_value disc) div 100"
      by (simp add: calculateDiscount_def Let_def)
    show "100 * calculateDiscount disc subtotal \<le> subtotal * d_value disc \<and>
         subtotal * d_value disc < 100 * (calculateDiscount disc subtotal + 1)"
      unfolding c by presburger
  qed
  have cap: "d_type disc = Percentage \<longrightarrow>
      (\<forall>cap. d_max_discount_cents disc = Some cap \<longrightarrow> calculateDiscount disc subtotal \<le> cap)"
    by (simp add: calculateDiscount_def Let_def)
  have fixed: "d_type disc = FixedAmount \<longrightarrow>
      calculateDiscount disc subtotal = min (d_value disc) subtotal \<and>
      calculateDiscount disc subtotal \<le> subtotal"
    by (simp add: calculateDiscount_def)
  have z1: "0 \<le> d_value disc \<and> (\<forall>cap. d_max_discount_cents disc = Some cap \<longrightarrow> 0 \<le> cap) \<longrightarrow>
      calculateDiscount disc 0 = 0"
    by (cases "d_type disc"; cases "d_max_discount_cents disc")
       (simp_all add: calculateDiscount_def Let_def)
  have z2: "d_value disc = 0 \<and> 0 \<le> subtotal \<and>
      (\<forall>cap. d_max_discount_cents disc = Some cap \<longrightarrow> 0 \<le> cap) \<longrightarrow>
      calculateDiscount disc subtotal = 0"
    by (cases "d_type disc"; cases "d_max_discount_cents disc")
       (simp_all add: calculateDiscount_def Let_def)
  have t1: "calculateDiscount (baseDiscount\<lparr>d_type := Percentage, d_value := 15\<rparr>) 999 = 149"
    by (simp add: calculateDiscount_def baseDiscount_def)
  have t2: "calculateDiscount (baseDiscount\<lparr>d_type := FixedAmount, d_value := 5000\<rparr>) 2000 = 2000"
    by (simp add: calculateDiscount_def baseDiscount_def)
  have t3: "calculateDiscount
     (baseDiscount\<lparr>d_type := Percentage, d_value := 50, d_max_discount_cents := Some 1000\<rparr>)
     10000 = 1000"
    by (simp add: calculateDiscount_def baseDiscount_def)
  from pct floor cap fixed z1 z2 t1 t2 t3 show ?thesis by blast
qed

theorem calculateDiscount_spec_witness:
  "calculateDiscount (baseDiscount\<lparr>d_value := 25\<rparr>) 4000 = 1000 \<and>
   calculateDiscount (baseDiscount\<lparr>d_type := FixedAmount, d_value := 500\<rparr>) 2000 = 500 \<and>
   calculateDiscount baseDiscount 0 = 0 \<and>
   calculateDiscount (baseDiscount\<lparr>d_value := 0\<rparr>) 10000 = 0"
proof -
  have a: "d_type (baseDiscount\<lparr>d_value := 25\<rparr>) = Percentage"
          "d_max_discount_cents (baseDiscount\<lparr>d_value := 25\<rparr>) = None"
          "d_value (baseDiscount\<lparr>d_value := 25\<rparr>) = 25"
    by (simp_all add: baseDiscount_def)
  have b: "d_type (baseDiscount\<lparr>d_type := FixedAmount, d_value := 500\<rparr>) = FixedAmount"
          "d_value (baseDiscount\<lparr>d_type := FixedAmount, d_value := 500\<rparr>) = 500"
    by (simp_all add: baseDiscount_def)
  have c: "0 \<le> d_value baseDiscount \<and>
           (\<forall>cap. d_max_discount_cents baseDiscount = Some cap \<longrightarrow> 0 \<le> cap)"
    by (simp add: baseDiscount_def)
  have d: "d_value (baseDiscount\<lparr>d_value := 0\<rparr>) = 0 \<and> (0::int) \<le> 10000 \<and>
           (\<forall>cap. d_max_discount_cents (baseDiscount\<lparr>d_value := 0\<rparr>) = Some cap \<longrightarrow> 0 \<le> cap)"
    by (simp add: baseDiscount_def)
  from calculateDiscount_spec[of "baseDiscount\<lparr>d_value := 25\<rparr>" 4000] a
  have 1: "calculateDiscount (baseDiscount\<lparr>d_value := 25\<rparr>) 4000 = 1000" by simp
  from calculateDiscount_spec[of "baseDiscount\<lparr>d_type := FixedAmount, d_value := 500\<rparr>" 2000] b
  have 2: "calculateDiscount (baseDiscount\<lparr>d_type := FixedAmount, d_value := 500\<rparr>) 2000 = 500"
    by simp
  from calculateDiscount_spec[of baseDiscount 0] c
  have 3: "calculateDiscount baseDiscount 0 = 0" by blast
  from calculateDiscount_spec[of "baseDiscount\<lparr>d_value := 0\<rparr>" 10000] d
  have 4: "calculateDiscount (baseDiscount\<lparr>d_value := 0\<rparr>) 10000 = 0" by blast
  from 1 2 3 4 show ?thesis by simp
qed

section \<open>The test-order path\<close>

lemma deduct_effect:
  "reserved_of (deduct t s k q d) key = reserved_of d key"
  "on_hand_of (deduct t s k q d) key =
     (if key = (s, k) then map_option (\<lambda>h. h - q) (on_hand_of d key) else on_hand_of d key)"
  "inventory_logs (deduct t s k q d) = inventory_logs d"
  by (simp_all add: deduct_def reserved_of_def on_hand_of_def split: option.splits)

lemma reserved_of_cong: "inventory d' = inventory d \<Longrightarrow> reserved_of d' key = reserved_of d key"
  by (simp add: reserved_of_def)

lemma on_hand_of_cong: "inventory d' = inventory d \<Longrightarrow> on_hand_of d' key = on_hand_of d key"
  by (simp add: on_hand_of_def)

lemma reserved_of_order_items [simp]:
  "reserved_of (d\<lparr>order_items := x\<rparr>) key = reserved_of d key"
  by (simp add: reserved_of_def)

lemma on_hand_of_order_items [simp]:
  "on_hand_of (d\<lparr>order_items := x\<rparr>) key = on_hand_of d key"
  by (simp add: on_hand_of_def)

lemma deduct_items_reserved_of:
  "reserved_of (deduct_items t s oid ls d) key = reserved_of d key"
  by (induction ls arbitrary: d) (simp_all add: deduct_effect)

lemma deduct_items_logs:
  "inventory_logs (deduct_items t s oid ls d) = inventory_logs d"
  by (induction ls arbitrary: d) (simp_all add: deduct_effect)

lemma deduct_items_on_hand_of:
  "on_hand_of (deduct_items t s oid ls d) key =
     map_option (\<lambda>h. h - pending s (map (\<lambda>l. (l_sku l, l_qty l)) ls) key) (on_hand_of d key)"
proof (induction ls arbitrary: d)
  case Nil
  show ?case by (simp add: option.map_ident)
next
  case (Cons l ls)
  let ?d0 = "d\<lparr>order_items := order_items d @
                [\<lparr>oi_order_id = oid, oi_sku = l_sku l, oi_title = l_title l,
                  oi_qty = l_qty l, oi_unit_price_cents = l_unit_price_cents l\<rparr>]\<rparr>"
  show ?case
    by (cases "on_hand_of d key") (auto simp: Cons.IH deduct_effect pending_Cons)
qed

lemma requested_quantity_pending:
  "pending s (map (\<lambda>i. (ir_sku i, ir_qty i)) items) key = requested_quantity s items key"
  by (induction items) (auto simp: pending_Cons requested_quantity_def)

lemma validate_order_items_ok:
  "validate_order_items s d items sub acc = Inr (sub', ls) \<Longrightarrow>
     map (\<lambda>l. (l_sku l, l_qty l)) ls =
       map (\<lambda>l. (l_sku l, l_qty l)) acc @ map (\<lambda>i. (ir_sku i, ir_qty i)) items \<and>
     (\<forall>it \<in> set items. 1 \<le> ir_qty it \<and> ir_qty it \<le> available d s (ir_sku it))"
proof (induction items arbitrary: sub acc)
  case Nil
  then show ?case by simp
next
  case (Cons it items)
  from Cons.prems obtain v where
    ok: "\<not> (ir_sku it = [] \<or> ir_qty it = 0 \<or> ir_qty it < 1)"
        "find_variant d s (ir_sku it) = Some v"
        "\<not> available d s (ir_sku it) < ir_qty it"
    and rest: "validate_order_items s d items (sub + v_price_cents v * ir_qty it)
         (acc @ [\<lparr>l_sku = ir_sku it, l_title = v_title v, l_qty = ir_qty it,
                   l_unit_price_cents = v_price_cents v\<rparr>]) = Inr (sub', ls)"
    by (auto split: if_splits option.splits)
  from Cons.IH[OF rest] ok show ?case by auto
qed

lemma create_test_order_inventory:
  assumes "create_test_order t oid st email sub ls disc amt d = (resp, d')"
  shows "reserved_of d' key = reserved_of d key"
    and "on_hand_of d' key =
           map_option (\<lambda>h. h - pending (st_id st) (map (\<lambda>l. (l_sku l, l_qty l)) ls) key)
             (on_hand_of d key)"
    and "inventory_logs d' = inventory_logs d"
proof -
  let ?d1 = "d\<lparr>orders := orders d @ [or_order resp]\<rparr>"
  let ?d2 = "deduct_items t (st_id st) oid ls ?d1"
  have base: "reserved_of ?d1 key = reserved_of d key" "on_hand_of ?d1 key = on_hand_of d key"
    "inventory_logs ?d1 = inventory_logs d"
    by (simp_all add: reserved_of_def on_hand_of_def)
  from assms have inv: "inventory d' = inventory ?d2" and logs: "inventory_logs d' = inventory_logs ?d2"
    by (auto simp: create_test_order_def Let_def increment_usage_def split: option.splits if_splits)
  show "reserved_of d' key = reserved_of d key"
    unfolding reserved_of_cong[OF inv] by (simp add: deduct_items_reserved_of base)
  show "on_hand_of d' key =
           map_option (\<lambda>h. h - pending (st_id st) (map (\<lambda>l. (l_sku l, l_qty l)) ls) key)
             (on_hand_of d key)"
    unfolding on_hand_of_cong[OF inv] by (simp add: deduct_items_on_hand_of base)
  show "inventory_logs d' = inventory_logs d"
    unfolding logs by (simp add: deduct_items_logs)
qed


text \<open>
  Claim C10. A test order that succeeds was given items each of which, on its
  own, asked for at least 1 and at most the availability of its sku as the store
  had it before the call: the check is a read of the unchanged store per item.
  After the call every row's \<open>reserved\<close> is what it was, its \<open>on_hand\<close> is lower
  by the total the request asked of that row, and the inventory log is
  unchanged. The deduction statement has no condition: whatever the quantity, it
  subtracts it from \<open>on_hand\<close>. In the witness two items of 3 each pass the
  check against 5 available, and \<open>on_hand\<close> ends at -1.
\<close>

theorem test_order_bypasses_reservation:
  assumes "test_order t orderId st body d = (Inr resp, d')"
  shows "(\<exists>items. tb_items body = Some items \<and>
            (\<forall>it \<in> set items. 1 \<le> ir_qty it \<and> ir_qty it \<le> available d (st_id st) (ir_sku it)) \<and>
            (\<forall>key. reserved_of d' key = reserved_of d key \<and>
                   on_hand_of d' key =
                     map_option (\<lambda>h. h - requested_quantity (st_id st) items key)
                       (on_hand_of d key))) \<and>
         inventory_logs d' = inventory_logs d \<and>
         on_hand_of (deduct t' s k q d0) (s, k) = map_option (\<lambda>h. h - q) (on_hand_of d0 (s, k))"
proof -
  from assms obtain email items sub ls disc amt where
    items: "tb_items body = Some items"
    and val: "validate_order_items (st_id st) d items 0 [] = Inr (sub, ls)"
    and cr: "create_test_order t orderId st email sub ls disc amt d = (resp, d')"
    by (auto simp: test_order_def split: option.splits if_splits sum.splits prod.splits)
  note v = validate_order_items_ok[OF val]
  note c = create_test_order_inventory[OF cr]
  from v have m: "map (\<lambda>l. (l_sku l, l_qty l)) ls = map (\<lambda>i. (ir_sku i, ir_qty i)) items"
    by simp
  have oh: "\<And>key. on_hand_of d' key =
      map_option (\<lambda>h. h - requested_quantity (st_id st) items key) (on_hand_of d key)"
    unfolding c(2) m requested_quantity_pending ..
  from items v c(1) c(3) oh show ?thesis
    by (simp add: deduct_effect)
qed

theorem test_order_bypasses_reservation_witness:
  "available test_order_ex ''s1'' ''A'' = 5 \<and>
   inventory (snd (test_order 1000 ''o1'' store_ex test_body_ex test_order_ex)) (''s1'', ''A'') =
     Some \<lparr>on_hand = - 1, reserved = 0, updated_at = 1000\<rparr> \<and>
   inventory_logs (snd (test_order 1000 ''o1'' store_ex test_body_ex test_order_ex)) = []"
proof -
  let ?run = "test_order 1000 ''o1'' store_ex test_body_ex test_order_ex"
  have ok: "fst ?run = Inr \<lparr>or_order = or_order (projr (fst ?run)), or_items = or_items (projr (fst ?run))\<rparr>"
    by (simp add: test_order_def create_test_order_def truthy_def find_variant_def available_def
          test_order_discount_def Let_def
          test_order_ex_def test_body_ex_def variant_A_def store_ex_def empty_db_def)
  then have run: "?run = (Inr \<lparr>or_order = or_order (projr (fst ?run)), or_items = or_items (projr (fst ?run))\<rparr>, snd ?run)"
    by (metis prod.collapse)
  note th = test_order_bypasses_reservation[OF run]
  have a: "available test_order_ex ''s1'' ''A'' = 5"
    by (simp add: available_def test_order_ex_def empty_db_def)
  have it: "tb_items test_body_ex = Some [\<lparr>ir_sku = ''A'', ir_qty = 3\<rparr>, \<lparr>ir_sku = ''A'', ir_qty = 3\<rparr>]"
    by (simp add: test_body_ex_def)
  have rq: "requested_quantity (st_id store_ex) [\<lparr>ir_sku = ''A'', ir_qty = 3\<rparr>, \<lparr>ir_sku = ''A'', ir_qty = 3\<rparr>] (''s1'', ''A'') = 6"
    by (simp add: requested_quantity_def store_ex_def)
  have r0: "reserved_of test_order_ex (''s1'', ''A'') = Some 0" "on_hand_of test_order_ex (''s1'', ''A'') = Some 5"
    "inventory_logs test_order_ex = []"
    by (simp_all add: reserved_of_def on_hand_of_def test_order_ex_def empty_db_def)
  from th it have "reserved_of (snd ?run) (''s1'', ''A'') = reserved_of test_order_ex (''s1'', ''A'')"
    and "on_hand_of (snd ?run) (''s1'', ''A'') = map_option (\<lambda>h. h - requested_quantity (st_id store_ex) [\<lparr>ir_sku = ''A'', ir_qty = 3\<rparr>, \<lparr>ir_sku = ''A'', ir_qty = 3\<rparr>] (''s1'', ''A'')) (on_hand_of test_order_ex (''s1'', ''A''))"
    and "inventory_logs (snd ?run) = inventory_logs test_order_ex"
    by auto
  then have "reserved_of (snd ?run) (''s1'', ''A'') = Some 0" "on_hand_of (snd ?run) (''s1'', ''A'') = Some (- 1)"
    "inventory_logs (snd ?run) = []"
    by (simp_all add: rq r0)
  moreover have "map_option updated_at (inventory (snd ?run) (''s1'', ''A'')) = Some 1000"
    by (simp add: test_order_def create_test_order_def truthy_def find_variant_def available_def
          test_order_discount_def Let_def deduct_def
          test_order_ex_def test_body_ex_def variant_A_def store_ex_def empty_db_def)
  ultimately show ?thesis
    using a by (auto simp: reserved_of_def on_hand_of_def)
qed

section \<open>Cart operations and the expiry time\<close>

lemma update_cart_commute:
  assumes "\<And>c. h (f c) = f (h c)" "\<And>c. c_id (h c) = c_id c" "\<And>c. c_id (f c) = c_id c"
  shows "update_cart cid h (update_cart cid f d) = update_cart cid f (update_cart cid h d)"
  by (simp add: update_cart_def assms)

lemma update_cart_tables [simp]:
  "cart_items (update_cart cid f d) = cart_items d"
  "discounts (update_cart cid f d) = discounts d"
  "discount_usage (update_cart cid f d) = discount_usage d"
  "variants (update_cart cid f d) = variants d"
  by (simp_all add: update_cart_def)

lemma reserve_update_cart:
  "reserve t s k q (update_cart cid f d) =
     (fst (reserve t s k q d), update_cart cid f (snd (reserve t s k q d)))"
  by (simp add: reserve_def update_cart_def split: option.splits)

lemma release_update_cart:
  "release t s k q (update_cart cid f d) = update_cart cid f (release t s k q d)"
  by (simp add: release_def update_cart_def split: option.splits)

lemma releaseReservedInventory_update_cart:
  "releaseReservedInventory t s acc (update_cart cid f d) =
     update_cart cid f (releaseReservedInventory t s acc d)"
  by (induction acc arbitrary: d) (auto simp: release_update_cart)

lemma reserve_loop_update_cart:
  "reserve_loop t s items acc (update_cart cid f d) =
     (fst (reserve_loop t s items acc d), update_cart cid f (snd (reserve_loop t s items acc d)))"
proof (induction items arbitrary: acc d)
  case Nil show ?case by simp
next
  case (Cons i items)
  show ?case
    by (simp add: reserve_update_cart split_beta Cons.IH releaseReservedInventory_update_cart)
qed

lemma customer_usage_count_update_cart [simp]:
  "customer_usage_count (update_cart cid f d) disc email = customer_usage_count d disc email"
  by (simp add: customer_usage_count_def)

lemma validateDiscount_update_cart [simp]:
  "validateDiscount (update_cart cid f d) t disc sub email = validateDiscount d t disc sub email"
  by (simp add: validateDiscount_def cong: option.case_cong)

lemma find_discount_update_cart [simp]:
  "find_discount (update_cart cid f d) x s = find_discount d x s"
  by (simp add: find_discount_def)

lemma find_discount_by_code_update_cart [simp]:
  "find_discount_by_code (update_cart cid f d) x s = find_discount_by_code d x s"
  by (simp add: find_discount_by_code_def)

lemma available_update_cart [simp]: "available (update_cart cid f d) s k = available d s k"
  by (simp add: available_def)

lemma find_variant_update_cart [simp]:
  "find_variant (update_cart cid f d) s k = find_variant d s k"
  by (simp add: find_variant_def)

lemma validate_cart_items_update_cart [simp]:
  "validate_cart_items s (update_cart cid f d) items acc = validate_cart_items s d items acc"
  by (induction items arbitrary: acc) (simp_all split: option.splits)

lemma replace_cart_items_update_cart:
  "replace_cart_items cid' ls (update_cart cid f d) = update_cart cid f (replace_cart_items cid' ls d)"
  by (simp add: replace_cart_items_def update_cart_def)

lemma find_cart_id: "find_cart d x s = Some c \<Longrightarrow> c_id c = x"
  by (auto simp: find_cart_def dest: find_some_pred)

lemma find_cart_set_expires_at:
  "find_cart (set_expires_at cid e d) cid s =
     map_option (\<lambda>c. c\<lparr>c_expires_at := e\<rparr>) (find_cart d cid s)"
proof -
  have "find_cart (set_expires_at cid e d) cid s =
      map_option (\<lambda>c. if c_id c = cid then c\<lparr>c_expires_at := e\<rparr> else c) (find_cart d cid s)"
    unfolding set_expires_at_def by (rule find_cart_update_cart) simp_all
  then show ?thesis
    by (cases "find_cart d cid s") (auto dest: find_cart_id)
qed

lemma update_cart_set_expires_at:
  assumes "\<And>c. h (c\<lparr>c_expires_at := e\<rparr>) = (h c)\<lparr>c_expires_at := e\<rparr>" "\<And>c. c_id (h c) = c_id c"
  shows "update_cart cid h (set_expires_at cid e d) = set_expires_at cid e (update_cart cid h d)"
  unfolding set_expires_at_def by (rule update_cart_commute) (simp_all add: assms)

lemma set_expires_at_reads [simp]:
  "validateDiscount (set_expires_at cid e d) t disc sub email = validateDiscount d t disc sub email"
  "find_discount (set_expires_at cid e d) x s = find_discount d x s"
  "find_discount_by_code (set_expires_at cid e d) x s = find_discount_by_code d x s"
  "select_cart_items (set_expires_at cid e d) x = select_cart_items d x"
  "validate_cart_items s (set_expires_at cid e d) items acc = validate_cart_items s d items acc"
  by (simp_all add: set_expires_at_def)

lemma checkout_discount_set_expires_at:
  "checkout_discount t st cid (crt\<lparr>c_expires_at := e\<rparr>) sub (set_expires_at cid e d) =
     (fst (checkout_discount t st cid crt sub d),
      fst (snd (checkout_discount t st cid crt sub d)),
      set_expires_at cid e (snd (snd (checkout_discount t st cid crt sub d))))"
proof -
  have c: "update_cart cid clear_discount (set_expires_at cid e d) =
           set_expires_at cid e (update_cart cid clear_discount d)"
    by (rule update_cart_set_expires_at) (simp_all add: clear_discount_def)
  show ?thesis
    unfolding checkout_discount_def
    by (auto simp: c split: option.splits sum.splits)
qed

lemma checkout_payment_set_expires_at:
  "checkout_payment api t st cid (crt\<lparr>c_expires_at := e\<rparr>) items amt disc su cu acc
       (set_expires_at cid e d) =
     (fst (checkout_payment api t st cid crt items amt disc su cu acc d),
      set_expires_at cid e (snd (checkout_payment api t st cid crt items amt disc su cu acc d)))"
proof -
  have r: "releaseReservedInventory t (st_id st) acc (set_expires_at cid e d) =
           set_expires_at cid e (releaseReservedInventory t (st_id st) acc d)"
    unfolding set_expires_at_def by (rule releaseReservedInventory_update_cart)
  have u: "\<And>x. update_cart cid
               (\<lambda>c. c\<lparr>c_status := CheckedOut, c_stripe_checkout_session_id := Some x,
                      c_discount_amount_cents := Some amt\<rparr>) (set_expires_at cid e d) =
             set_expires_at cid e (update_cart cid
               (\<lambda>c. c\<lparr>c_status := CheckedOut, c_stripe_checkout_session_id := Some x,
                      c_discount_amount_cents := Some amt\<rparr>) d)"
    by (rule update_cart_set_expires_at) simp_all
  have p: "session_params_of st cid (crt\<lparr>c_expires_at := e\<rparr>) items disc =
           session_params_of st cid crt items disc"
    by (simp add: session_params_of_def fun_eq_iff)
  show ?thesis
    unfolding checkout_payment_def Let_def p
    by (simp add: r u split: option.splits sum.splits)
qed

lemma checkout_set_expires_at:
  "checkout api t st cid body (set_expires_at cid e d) =
     (fst (checkout api t st cid body d), set_expires_at cid e (snd (checkout api t st cid body d)))"
proof -
  have sel: "select_cart_items (set_expires_at cid e d) cid = select_cart_items d cid"
    by simp
  have loop: "\<And>items d1. reserve_loop t (st_id st) items [] (set_expires_at cid e d1) =
     (fst (reserve_loop t (st_id st) items [] d1),
      set_expires_at cid e (snd (reserve_loop t (st_id st) items [] d1)))"
    unfolding set_expires_at_def by (rule reserve_loop_update_cart)
  show ?thesis
    unfolding checkout_def find_cart_set_expires_at sel Let_def
    by (simp add: checkout_discount_set_expires_at loop checkout_payment_set_expires_at
             split_beta
             split: option.splits sum.splits)
qed

lemma items_discount_set_expires_at:
  "items_discount t st cid (crt\<lparr>c_expires_at := e\<rparr>) sub (set_expires_at cid e d) =
     (fst (items_discount t st cid crt sub d),
      fst (snd (items_discount t st cid crt sub d)),
      set_expires_at cid e (snd (snd (items_discount t st cid crt sub d))))"
proof -
  have c: "update_cart cid clear_discount (set_expires_at cid e d) =
           set_expires_at cid e (update_cart cid clear_discount d)"
    by (rule update_cart_set_expires_at) (simp_all add: clear_discount_def)
  have u: "\<And>a. update_cart cid (\<lambda>c. c\<lparr>c_discount_amount_cents := Some a\<rparr>) (set_expires_at cid e d) =
           set_expires_at cid e (update_cart cid (\<lambda>c. c\<lparr>c_discount_amount_cents := Some a\<rparr>) d)"
    by (rule update_cart_set_expires_at) simp_all
  show ?thesis
    unfolding items_discount_def
    by (auto simp: c u Let_def split: option.splits sum.splits)
qed

lemma replace_cart_items_set_expires_at:
  "replace_cart_items cid' ls (set_expires_at cid e d) =
     set_expires_at cid e (replace_cart_items cid' ls d)"
  unfolding set_expires_at_def by (rule replace_cart_items_update_cart)

lemma cart_items_route_set_expires_at:
  "cart_items_route t st cid items (set_expires_at cid e d) =
     (echo_expires_at e (fst (cart_items_route t st cid items d)),
      set_expires_at cid e (snd (cart_items_route t st cid items d)))"
  unfolding cart_items_route_def find_cart_set_expires_at Let_def echo_expires_at_def
  by (simp add: replace_cart_items_set_expires_at items_discount_set_expires_at split_beta
        split: option.splits sum.splits)

lemma apply_discount_set_expires_at:
  "apply_discount t st cid code (set_expires_at cid e d) =
     (fst (apply_discount t st cid code d),
      set_expires_at cid e (snd (apply_discount t st cid code d)))"
proof -
  have u: "\<And>a b c'. update_cart cid
             (\<lambda>c. c\<lparr>c_discount_code := a, c_discount_id := b, c_discount_amount_cents := c'\<rparr>)
             (set_expires_at cid e d) =
           set_expires_at cid e (update_cart cid
             (\<lambda>c. c\<lparr>c_discount_code := a, c_discount_id := b, c_discount_amount_cents := c'\<rparr>) d)"
    by (rule update_cart_set_expires_at) simp_all
  show ?thesis
    unfolding apply_discount_def find_cart_set_expires_at Let_def
    by (simp add: u split: option.splits sum.splits)
qed

lemma remove_discount_set_expires_at:
  "remove_discount st cid (set_expires_at cid e d) =
     (fst (remove_discount st cid d), set_expires_at cid e (snd (remove_discount st cid d)))"
proof -
  have c: "update_cart cid clear_discount (set_expires_at cid e d) =
           set_expires_at cid e (update_cart cid clear_discount d)"
    by (rule update_cart_set_expires_at) (simp_all add: clear_discount_def)
  show ?thesis
    unfolding remove_discount_def find_cart_set_expires_at Let_def
    by (simp add: c split: option.splits)
qed


text \<open>
  Claim C9. Item replacement, apply-discount, remove-discount and checkout never
  read the cart's \<open>expires_at\<close>: run on the store in which the cart's
  \<open>expires_at\<close> is set to any other time, each gives the same answer and the
  same store with that time set (item replacement echoes the time in its
  response, and echoes the other one). So an open cart whose expiry is past
  behaves exactly as one whose expiry is ahead. In the example the cart expired
  at millisecond 1800000; a checkout at millisecond 5000000 succeeds, reserves
  2 of A and moves the cart to \<open>checked_out\<close>. The sweep is the one reader:
  \<open>expired_carts\<close> compares \<open>expires_at\<close> with the current time.
\<close>

theorem cart_operations_ignore_expires_at:
  "cart_items_route t st cartId items (set_expires_at cartId e d) =
     (echo_expires_at e (fst (cart_items_route t st cartId items d)),
      set_expires_at cartId e (snd (cart_items_route t st cartId items d))) \<and>
   apply_discount t st cartId code (set_expires_at cartId e d) =
     (fst (apply_discount t st cartId code d),
      set_expires_at cartId e (snd (apply_discount t st cartId code d))) \<and>
   remove_discount st cartId (set_expires_at cartId e d) =
     (fst (remove_discount st cartId d),
      set_expires_at cartId e (snd (remove_discount st cartId d))) \<and>
   checkout api t st cartId body (set_expires_at cartId e d) =
     (fst (checkout api t st cartId body d),
      set_expires_at cartId e (snd (checkout api t st cartId body d))) \<and>
   c_expires_at cart_ex < 5000000 \<and>
   fst (checkout api_ok 5000000 store_ex ''c1'' body_ex oversell_ex) =
     Inr \<lparr>checkout_url = Some ''https://pay'', stripe_checkout_session_id = ''cs_1''\<rparr> \<and>
   map c_status (carts (snd (checkout api_ok 5000000 store_ex ''c1'' body_ex oversell_ex))) =
     [CheckedOut, Open] \<and>
   reserved_of (snd (checkout api_ok 5000000 store_ex ''c1'' body_ex oversell_ex)) (''s1'', ''A'') =
     Some 2"
proof -
  have ex: "c_expires_at cart_ex < 5000000 \<and>
   fst (checkout api_ok 5000000 store_ex ''c1'' body_ex oversell_ex) =
     Inr \<lparr>checkout_url = Some ''https://pay'', stripe_checkout_session_id = ''cs_1''\<rparr> \<and>
   map c_status (carts (snd (checkout api_ok 5000000 store_ex ''c1'' body_ex oversell_ex))) =
     [CheckedOut, Open] \<and>
   reserved_of (snd (checkout api_ok 5000000 store_ex ''c1'' body_ex oversell_ex)) (''s1'', ''A'') =
     Some 2"
    by (simp add: run_defs oversell_defs reserved_of_def)
  then show ?thesis
    by (simp only: cart_items_route_set_expires_at apply_discount_set_expires_at
          remove_discount_set_expires_at checkout_set_expires_at simp_thms)
qed

end
